theory Spec2Isabelle
  imports Complex_Main "HOL-Library.Word" "HOL-Library.Log_Nat"
begin

text \<open>
  The mining pool of Iron Fish: the share ledger (\<open>MiningPoolShares\<close>), the pool
  orchestrator (\<open>MiningPool\<close>) and the worker session (\<open>StratumClient\<close>), modelled as
  functions on explicit states, and what the specification says about them.
\<close>

section \<open>JavaScript primitives used by the mining pool\<close>

text \<open>
  A Node.js \<open>Buffer\<close> is a sequence of bytes, a JavaScript string a sequence of UTF-16
  code units, a \<open>BigInt\<close> an unbounded integer.
\<close>

type_synonym byte = "8 word"
type_synonym Buffer = "byte list"
type_synonym js_string = "nat list"

datatype exn = AssertionError | SyntaxError | TypeError

datatype js_number = Num int | PosInfinity | NegInfinity

datatype level = Debug | Info | Warn | Error

text \<open>
  A log line: its level, the fixed text of the message (interpolated values are left
  out of the text) and the integers interpolated into it, if any.
\<close>

datatype log_entry = Log level string "js_number list"

subsection \<open>\<open>Buffer.prototype.toString()\<close>: UTF-8 decoding\<close>

text \<open>
  \<open>buf.toString()\<close> decodes the bytes as UTF-8. An ill-formed sequence yields U+FFFD and
  decoding resumes at the byte that broke the sequence; a lone continuation byte
  (0x80..0xBF) is ill-formed on its own.
\<close>

definition in_range :: "byte \<Rightarrow> byte \<Rightarrow> byte \<Rightarrow> bool" where
  "in_range lo hi b = (lo \<le> b \<and> b \<le> hi)"

fun utf8_decode :: "Buffer \<Rightarrow> nat list" where
  "utf8_decode [] = []"
| "utf8_decode (b # bs) =
    (if b \<le> 0x7F then unat b # utf8_decode bs
     else if in_range 0xC2 0xDF b then
       (case bs of
          [] \<Rightarrow> [0xFFFD]
        | c # cs \<Rightarrow>
            if in_range 0x80 0xBF c
            then ((unat b - 0xC0) * 64 + (unat c - 0x80)) # utf8_decode cs
            else 0xFFFD # utf8_decode bs)
     else if in_range 0xE0 0xEF b then
       (case bs of
          [] \<Rightarrow> [0xFFFD]
        | c # cs \<Rightarrow>
            if in_range (if b = 0xE0 then 0xA0 else 0x80) (if b = 0xED then 0x9F else 0xBF) c
            then (case cs of
                    [] \<Rightarrow> [0xFFFD]
                  | d # ds \<Rightarrow>
                      if in_range 0x80 0xBF d
                      then ((unat b - 0xE0) * 4096 + (unat c - 0x80) * 64 + (unat d - 0x80))
                             # utf8_decode ds
                      else 0xFFFD # utf8_decode cs)
            else 0xFFFD # utf8_decode bs)
     else if in_range 0xF0 0xF4 b then
       (case bs of
          [] \<Rightarrow> [0xFFFD]
        | c # cs \<Rightarrow>
            if in_range (if b = 0xF0 then 0x90 else 0x80) (if b = 0xF4 then 0x8F else 0xBF) c
            then (case cs of
                    [] \<Rightarrow> [0xFFFD]
                  | d # ds \<Rightarrow>
                      if in_range 0x80 0xBF d
                      then (case ds of
                              [] \<Rightarrow> [0xFFFD]
                            | e # es \<Rightarrow>
                                if in_range 0x80 0xBF e
                                then ((unat b - 0xF0) * 262144 + (unat c - 0x80) * 4096
                                        + (unat d - 0x80) * 64 + (unat e - 0x80))
                                       # utf8_decode es
                                else 0xFFFD # utf8_decode ds)
                      else 0xFFFD # utf8_decode cs)
            else 0xFFFD # utf8_decode bs)
     else 0xFFFD # utf8_decode bs)"

text \<open>A code point above U+FFFF is two UTF-16 code units (a surrogate pair).\<close>

definition utf16_units :: "nat \<Rightarrow> js_string" where
  "utf16_units cp =
     (if cp < 0x10000 then [cp]
      else [0xD800 + (cp - 0x10000) div 0x400, 0xDC00 + (cp - 0x10000) mod 0x400])"

definition Buffer_toString :: "Buffer \<Rightarrow> js_string" where
  "Buffer_toString b = concat (map utf16_units (utf8_decode b))"

subsection \<open>The relational operator \<open><\<close>\<close>

text \<open>
  On two strings \<open><\<close> compares code unit by code unit; a proper prefix is smaller.
\<close>

fun js_string_lt :: "js_string \<Rightarrow> js_string \<Rightarrow> bool" where
  "js_string_lt [] [] = False"
| "js_string_lt [] (y # ys) = True"
| "js_string_lt (x # xs) [] = False"
| "js_string_lt (x # xs) (y # ys) = (if x = y then js_string_lt xs ys else x < y)"

text \<open>
  On two objects \<open><\<close> first converts each operand to a primitive. A \<open>Buffer\<close> has no
  \<open>Symbol.toPrimitive\<close> and its \<open>valueOf\<close> returns the object itself, so the conversion
  is \<open>toString()\<close>: \<open>a < b\<close> on two Buffers compares their UTF-8 decodings as strings.
\<close>

definition Buffer_lt :: "Buffer \<Rightarrow> Buffer \<Rightarrow> bool" where
  "Buffer_lt a b = js_string_lt (Buffer_toString a) (Buffer_toString b)"

text \<open>The unsigned integer a Buffer holds in big-endian order.\<close>

definition be_value :: "Buffer \<Rightarrow> int" where
  "be_value b = foldl (\<lambda>acc x. acc * 256 + uint x) 0 b"

subsection \<open>Hex encoding and decoding\<close>

definition hex_digit :: "nat \<Rightarrow> char" where
  "hex_digit n = ''0123456789abcdef'' ! (n mod 16)"

text \<open>\<open>buf.toString('hex')\<close>\<close>

definition Buffer_toHex :: "Buffer \<Rightarrow> string" where
  "Buffer_toHex b = concat (map (\<lambda>x. [hex_digit (unat x div 16), hex_digit (unat x)]) b)"

definition hex_value :: "char \<Rightarrow> nat option" where
  "hex_value c =
     (let n = (of_char c :: nat) in
      if 48 \<le> n \<and> n \<le> 57 then Some (n - 48)
      else if 97 \<le> n \<and> n \<le> 102 then Some (n - 87)
      else if 65 \<le> n \<and> n \<le> 70 then Some (n - 55)
      else None)"

text \<open>
  \<open>Buffer.from(s, 'hex')\<close> decodes pairs of hex digits and stops at the first pair that is
  not two hex digits (a trailing single character is dropped).
\<close>

fun Buffer_fromHex :: "string \<Rightarrow> Buffer" where
  "Buffer_fromHex (a # b # rest) =
     (case hex_value a of
        None \<Rightarrow> []
      | Some x \<Rightarrow>
          (case hex_value b of
             None \<Rightarrow> []
           | Some y \<Rightarrow> of_nat (x * 16 + y) # Buffer_fromHex rest))"
| "Buffer_fromHex _ = []"

subsection \<open>\<open>BigInt\<close> arithmetic\<close>

text \<open>BigInt division truncates towards zero; the divisors of this program are not zero.\<close>

definition BigInt_div :: "int \<Rightarrow> int \<Rightarrow> int" where
  "BigInt_div a b = sgn a * sgn b * (\<bar>a\<bar> div \<bar>b\<bar>)"

text \<open>
  \<open>Number(x)\<close> of a BigInt: the nearest double, ties to even; exact up to \<open>2^53\<close>,
  infinite from \<open>2^1024\<close> on.
\<close>

definition round_to_double :: "int \<Rightarrow> int" where
  "round_to_double n =
     (let e = nat (bitlen n - 53); q = n div 2 ^ e; r = n mod 2 ^ e in
      if 2 * r > 2 ^ e \<or> (2 * r = 2 ^ e \<and> odd q) then (q + 1) * 2 ^ e else q * 2 ^ e)"

definition Number_of_BigInt :: "int \<Rightarrow> js_number" where
  "Number_of_BigInt x =
     (if \<bar>x\<bar> < 2 ^ 53 then Num x
      else if round_to_double \<bar>x\<bar> \<ge> 2 ^ 1024 then (if x < 0 then NegInfinity else PosInfinity)
      else Num (sgn x * round_to_double \<bar>x\<bar>))"

text \<open>
  Modelled from the spec: \<open>BigIntUtils.toBytesBE(value, size)\<close> is not among the sources;
  the spec has it serialise the value as \<open>size\<close> big-endian bytes. (Of a value that
  does not fit, about which the spec is silent, this keeps the low bytes.)
\<close>

definition toBytesBE :: "int \<Rightarrow> nat \<Rightarrow> Buffer" where
  "toBytesBE v n = map (\<lambda>i. word_of_int (v div 256 ^ (n - 1 - i))) [0..<n]"

section \<open>The share ledger (\<open>poolShares.ts\<close>)\<close>

record Share =
  timestamp :: int
  graffiti :: string
  miningRequestId :: int
  randomness :: int

text \<open>
  \<open>MiningPoolShares\<close> holds one array of shares. \<open>new Date()\<close> is the parameter \<open>now\<close>,
  in milliseconds.
\<close>

definition submitShare :: "int \<Rightarrow> string \<Rightarrow> int \<Rightarrow> int \<Rightarrow> Share list \<Rightarrow> Share list" where
  "submitShare now g rid r shares =
     shares @ [\<lparr>timestamp = now, graffiti = g, miningRequestId = rid, randomness = r\<rparr>]"

definition hasShare :: "string \<Rightarrow> int \<Rightarrow> int \<Rightarrow> Share list \<Rightarrow> bool" where
  "hasShare g rid r shares =
     (find (\<lambda>el. Share.miningRequestId el = rid \<and> Share.randomness el = r \<and> Share.graffiti el = g)
        shares \<noteq> None)"

definition totalShareCount :: "Share list \<Rightarrow> nat" where
  "totalShareCount shares = length shares"

definition graffitiShareCount :: "string \<Rightarrow> Share list \<Rightarrow> nat" where
  "graffitiShareCount g shares = length (filter (\<lambda>share. Share.graffiti share = g) shares)"

definition totalShareCountSince :: "int \<Rightarrow> Share list \<Rightarrow> nat" where
  "totalShareCountSince timeCutoff shares =
     length (filter (\<lambda>share. Share.timestamp share > timeCutoff) shares)"

definition graffitiShareCountSince :: "string \<Rightarrow> int \<Rightarrow> Share list \<Rightarrow> nat" where
  "graffitiShareCountSince g timeCutoff shares =
     length (filter (\<lambda>share. Share.timestamp share > timeCutoff \<and> Share.graffiti share = g) shares)"

section \<open>The pool orchestrator (\<open>MiningPool\<close>)\<close>

subsection \<open>Block templates\<close>

text \<open>
  Of a serialized block template the pool reads and writes four header fields and the
  previous block's target and timestamp; \<open>header_rest\<close> and \<open>template_rest\<close> stand for
  everything else it carries.
\<close>

record Header =
  graffiti :: string
  randomness :: int
  target :: string
  timestamp :: int
  header_rest :: string

record PreviousBlockInfo =
  target :: string
  timestamp :: int

record SerializedBlockTemplate =
  header :: Header
  previousBlockInfo :: "PreviousBlockInfo option"
  template_rest :: string

subsection \<open>State\<close>

text \<open>
  \<open>miningRequestBlocks\<close> is a \<open>Map\<close> from mining request IDs to template objects. The
  pool writes to the fields of a stored template, and one object can be stored under
  several IDs, so the map holds references and \<open>heap\<close> holds the objects; \<open>next_ref\<close> is
  the next unused reference. The last seven fields record what the pool does to its
  collaborators: the lines logged, the templates passed to \<open>rpc.submitBlock\<close>, the
  arguments of \<open>stratum.newWork\<close>, the delays passed to \<open>setTimeout\<close>, and how often
  \<open>rpc.tryConnect\<close>, \<open>processNewBlocks\<close> and \<open>stratum.waitForWork\<close> were called.
\<close>

type_synonym ref = nat

record MiningPool =
  shares :: "Share list"
  nextMiningRequestId :: int
  miningRequestBlocks :: "int \<rightharpoonup> ref"
  heap :: "ref \<Rightarrow> SerializedBlockTemplate"
  next_ref :: ref
  difficulty :: int
  target :: Buffer
  currentHeadTimestamp :: "int option"
  currentHeadDifficulty :: "int option"
  started :: bool
  connectWarned :: bool
  connectTimeout :: "nat option"
  recalculateTargetInterval :: "nat option"
  log :: "log_entry list"
  submitBlock_calls :: "SerializedBlockTemplate list"
  newWork_calls :: "(int \<times> SerializedBlockTemplate \<times> int \<times> int) list"
  timeouts :: "nat list"
  tryConnect_calls :: nat
  processNewBlocks_calls :: nat
  waitForWork_calls :: nat

definition RECALCULATE_TARGET_TIMEOUT :: nat where
  "RECALCULATE_TARGET_TIMEOUT = 10000"

definition HASHRATE_TIME_CUTOFF_SECONDS :: int where
  "HASHRATE_TIME_CUTOFF_SECONDS = 60"

definition HASHRATE_TIME_CUTOFF_MILLISECONDS :: int where
  "HASHRATE_TIME_CUTOFF_MILLISECONDS = HASHRATE_TIME_CUTOFF_SECONDS * 1000"

text \<open>The constructor; \<open>h0\<close> is the content of the unallocated store.\<close>

definition MiningPool_new :: "(ref \<Rightarrow> SerializedBlockTemplate) \<Rightarrow> MiningPool" where
  "MiningPool_new h0 =
     (let d = 1850000 * 2;
          basePoolTarget = BigInt_div (2 ^ 256) d
      in \<lparr>shares = [],
          nextMiningRequestId = 0,
          miningRequestBlocks = Map.empty,
          heap = h0,
          next_ref = 0,
          difficulty = d,
          target = toBytesBE basePoolTarget 32,
          currentHeadTimestamp = None,
          currentHeadDifficulty = None,
          started = False,
          connectWarned = False,
          connectTimeout = None,
          recalculateTargetInterval = None,
          log = [],
          submitBlock_calls = [],
          newWork_calls = [],
          timeouts = [],
          tryConnect_calls = 0,
          processNewBlocks_calls = 0,
          waitForWork_calls = 0\<rparr>)"

definition pool_log :: "level \<Rightarrow> string \<Rightarrow> js_number list \<Rightarrow> MiningPool \<Rightarrow> MiningPool" where
  "pool_log l msg vs p = p\<lparr>log := log p @ [Log l msg vs]\<rparr>"

subsection \<open>Hashrate\<close>

definition hashrate :: "int \<Rightarrow> MiningPool \<Rightarrow> js_number" where
  "hashrate now p =
     (let timeCutoff = now - HASHRATE_TIME_CUTOFF_MILLISECONDS;
          totalShares = totalShareCountSince timeCutoff (shares p)
      in Number_of_BigInt
           (BigInt_div (int totalShares * difficulty p) HASHRATE_TIME_CUTOFF_SECONDS))"

definition graffitiHashrate :: "int \<Rightarrow> string \<Rightarrow> MiningPool \<Rightarrow> js_number" where
  "graffitiHashrate now g p =
     (let timeCutoff = now - HASHRATE_TIME_CUTOFF_MILLISECONDS;
          totalShares = graffitiShareCountSince g timeCutoff (shares p)
      in Number_of_BigInt
           (BigInt_div (int totalShares * difficulty p) HASHRATE_TIME_CUTOFF_SECONDS))"

subsection \<open>\<open>submitWork\<close>\<close>

text \<open>
  \<open>mineableHeaderString\<close> (the header's serialisation, from a file that is not among the
  sources) and \<open>blake3\<close> (a library) are parameters, and so are the clock \<open>now\<close> and the
  node's answer \<open>added\<close> to \<open>rpc.submitBlock\<close>. The percentages of the two diagnostic lines
  are floating-point text and are left out of the log entries. The parameters
  \<open>miningRequestId\<close>, \<open>randomness\<close> and \<open>graffiti\<close> are written \<open>rid\<close>, \<open>rand\<close> and
  \<open>graf\<close>, the full names being those of the record fields.
\<close>

definition submitWork ::
  "(Header \<Rightarrow> Buffer) \<Rightarrow> (Buffer \<Rightarrow> Buffer) \<Rightarrow> int \<Rightarrow> bool \<Rightarrow>
   int \<Rightarrow> int \<Rightarrow> Buffer \<Rightarrow> MiningPool \<Rightarrow> MiningPool" where
  "submitWork mineableHeaderString blake3 now added rid rand graf p =
     (if rid \<noteq> nextMiningRequestId p - 1
      then pool_log Debug ''Stale share submitted'' [] p
      else
        (case miningRequestBlocks p rid of
           None \<Rightarrow> pool_log Warn ''Client work for invalid mining request'' [Num rid] p
         | Some blockTemplate \<Rightarrow>
             (let graffitiHex = Buffer_toHex graf;
                  t = heap p blockTemplate;
                  t1 = t\<lparr>header := (header t)\<lparr>Header.graffiti := graffitiHex,
                                               Header.randomness := rand\<rparr>\<rparr>;
                  p1 = p\<lparr>heap := (heap p)(blockTemplate := t1)\<rparr>;
                  headerBytes = mineableHeaderString (header t1);
                  hashedHeader = blake3 headerBytes;
                  p2 = (if Buffer_lt hashedHeader (MiningPool.target p1)
                        then
                          (let p3 = pool_log Debug ''Valid pool share submitted'' [] p1;
                               p4 = p3\<lparr>shares := submitShare now graffitiHex rid rand (shares p3)\<rparr>;
                               minerHashrate = graffitiHashrate now graffitiHex p4;
                               totalHashrate = hashrate now p4;
                               p5 = pool_log Debug ''Hashrate, miner, total''
                                      [minerHashrate, totalHashrate] p4;
                               minerShares = graffitiShareCount graffitiHex (shares p5);
                               totalShares = totalShareCount (shares p5)
                           in pool_log Debug ''Shares, miner, total''
                                [Num (int minerShares), Num (int totalShares)] p5)
                        else p1)
              in if Buffer_lt hashedHeader (Buffer_fromHex (Header.target (header t1)))
                 then
                   (let p6 = pool_log Debug ''Valid block, submitting to node'' [] p2;
                        p7 = p6\<lparr>submitBlock_calls := submitBlock_calls p6 @ [heap p6 blockTemplate]\<rparr>
                    in if added
                       then pool_log Info ''Block submitted successfully!'' [] p7
                       else pool_log Info ''Block was rejected'' [] p7)
                 else p2)))"

subsection \<open>Distributing and retargeting jobs\<close>

definition distributeNewBlock :: "ref \<Rightarrow> MiningPool \<Rightarrow> exn + MiningPool" where
  "distributeNewBlock newBlock p =
     (case currentHeadTimestamp p of
        None \<Rightarrow> Inl AssertionError
      | Some headTimestamp \<Rightarrow>
          (case currentHeadDifficulty p of
             None \<Rightarrow> Inl AssertionError
           | Some headDifficulty \<Rightarrow>
               (let rid = nextMiningRequestId p;
                    p1 = p\<lparr>nextMiningRequestId := nextMiningRequestId p + 1\<rparr>;
                    p2 = p1\<lparr>miningRequestBlocks := (miningRequestBlocks p1)(rid \<mapsto> newBlock)\<rparr>
                in Inr (p2\<lparr>newWork_calls := newWork_calls p2 @
                             [(rid, heap p2 newBlock, headDifficulty, headTimestamp)]\<rparr>))))"

text \<open>
  The retarget tick. \<open>Target.calculateDifficulty\<close> and \<open>Target.fromDifficulty\<close> (followed by
  \<open>asBigInt\<close>) belong to the consensus code, which is not among the sources: they are
  the parameters \<open>calculateDifficulty\<close> and \<open>fromDifficulty\<close>; \<open>now\<close> is \<open>new Date()\<close>.
\<close>

definition recalculateTarget ::
  "(int \<Rightarrow> int \<Rightarrow> int \<Rightarrow> int) \<Rightarrow> (int \<Rightarrow> int) \<Rightarrow> int \<Rightarrow> MiningPool \<Rightarrow> exn + MiningPool" where
  "recalculateTarget calculateDifficulty fromDifficulty now p =
     (case currentHeadTimestamp p of
        None \<Rightarrow> Inl AssertionError
      | Some headTimestamp \<Rightarrow>
          (case currentHeadDifficulty p of
             None \<Rightarrow> Inl AssertionError
           | Some headDifficulty \<Rightarrow>
               (case miningRequestBlocks p (nextMiningRequestId p - 1) of
                  None \<Rightarrow> Inl AssertionError
                | Some latestBlock \<Rightarrow>
                    (let newTime = now;
                         newTarget = fromDifficulty (calculateDifficulty newTime headTimestamp headDifficulty);
                         t = heap p latestBlock;
                         t1 = t\<lparr>header := (header t)\<lparr>Header.target := Buffer_toHex (toBytesBE newTarget 32)\<rparr>\<rparr>;
                         t2 = t1\<lparr>header := (header t1)\<lparr>Header.timestamp := newTime\<rparr>\<rparr>
                     in distributeNewBlock latestBlock (p\<lparr>heap := (heap p)(latestBlock := t2)\<rparr>)))))"

text \<open>
  One round of the loop of \<open>processNewBlocks\<close>: the stream delivers a new template object
  \<open>payload\<close>. \<open>toDifficulty\<close> stands for \<open>new Target(...).toDifficulty()\<close>.
\<close>

definition restartCalculateTargetInterval :: "MiningPool \<Rightarrow> MiningPool" where
  "restartCalculateTargetInterval p = p\<lparr>recalculateTargetInterval := Some RECALCULATE_TARGET_TIMEOUT\<rparr>"

definition processNewBlock ::
  "(Buffer \<Rightarrow> int) \<Rightarrow> SerializedBlockTemplate \<Rightarrow> MiningPool \<Rightarrow> exn + MiningPool" where
  "processNewBlock toDifficulty payload p =
     (case previousBlockInfo payload of
        None \<Rightarrow> Inl AssertionError
      | Some info \<Rightarrow>
          (let r = next_ref p;
               p1 = p\<lparr>heap := (heap p)(r := payload), next_ref := r + 1\<rparr>;
               p2 = restartCalculateTargetInterval p1;
               p3 = p2\<lparr>currentHeadDifficulty := Some (toDifficulty (Buffer_fromHex (PreviousBlockInfo.target info)))\<rparr>;
               p4 = p3\<lparr>currentHeadTimestamp := Some (PreviousBlockInfo.timestamp info)\<rparr>
           in distributeNewBlock r p4))"

subsection \<open>Connecting to the node\<close>

text \<open>
  \<open>startConnectingRpc\<close> is asynchronous: it calls \<open>rpc.tryConnect()\<close> and suspends;
  \<open>startConnectingRpc_resumed\<close> is the rest of its body, run when the attempt has settled
  with the outcome \<open>connected'\<close>. \<open>setTimeout\<close> appends its delay to \<open>timeouts\<close> and returns
  the index as its token; the callback of every such timer is \<open>startConnectingRpc\<close>.
\<close>

definition tryConnect :: "MiningPool \<Rightarrow> MiningPool" where
  "tryConnect p = p\<lparr>tryConnect_calls := tryConnect_calls p + 1\<rparr>"

definition startConnectingRpc_resumed :: "bool \<Rightarrow> MiningPool \<Rightarrow> MiningPool" where
  "startConnectingRpc_resumed connected' p =
     (if \<not> started p then p
      else if \<not> connected' then
        (let p1 = (if \<not> connectWarned p
                   then (pool_log Warn ''Failed to connect to node, retrying...'' [] p)
                          \<lparr>connectWarned := True\<rparr>
                   else p)
         in p1\<lparr>connectTimeout := Some (length (timeouts p1)), timeouts := timeouts p1 @ [5000]\<rparr>)
      else
        (let p1 = p\<lparr>connectWarned := False\<rparr>;
             p2 = pool_log Info ''Successfully connected to node'' [] p1;
             p3 = pool_log Info ''Listening to node for new blocks'' [] p2
         in p3\<lparr>processNewBlocks_calls := processNewBlocks_calls p3 + 1\<rparr>))"

definition pool_start :: "MiningPool \<Rightarrow> MiningPool" where
  "pool_start p =
     (if started p then p
      else
        (let p1 = p\<lparr>started := True\<rparr>;
             p2 = pool_log Info ''Starting stratum server...'' [] p1;
             p3 = pool_log Info ''Connecting to node...'' [] p2
         in tryConnect p3))"

definition onDisconnectRpc :: "MiningPool \<Rightarrow> MiningPool" where
  "onDisconnectRpc p =
     (let p1 = p\<lparr>waitForWork_calls := waitForWork_calls p + 1\<rparr>;
          p2 = pool_log Info ''Disconnected from node unexpectedly. Reconnecting.'' [] p1
      in tryConnect p2)"

text \<open>
  The connect loop, from a state in which an attempt is in flight: the attempts settle
  with the outcomes listed; after an attempt that armed a timer the timer fires and
  its callback starts the next attempt.
\<close>

fun rpc_connect_loop :: "bool list \<Rightarrow> MiningPool \<Rightarrow> MiningPool" where
  "rpc_connect_loop [] p = p"
| "rpc_connect_loop (r # rs) p =
     (let p1 = startConnectingRpc_resumed r p
      in if length (timeouts p1) > length (timeouts p)
         then rpc_connect_loop rs (tryConnect p1)
         else p1)"

section \<open>The worker session (\<open>StratumClient\<close>)\<close>

subsection \<open>Messages\<close>

text \<open>
  A JSON value as \<open>JSON.parse\<close> returns it. A number is a double: a real, or an
  infinity (\<open>True\<close> for the positive one) where the literal is beyond the range.
  Strings and keys are sequences of code units; of two members of an object with the
  same key the later one counts.
\<close>

datatype json =
  JNull
| JBool bool
| JNumber real
| JInfinity bool
| JString js_string
| JArray "json list"
| JObject "(js_string \<times> json) list"

text \<open>The code units of an ASCII text.\<close>

definition ascii :: "string \<Rightarrow> js_string" where
  "ascii s = map of_char s"

fun js_assoc :: "js_string \<Rightarrow> (js_string \<times> json) list \<Rightarrow> json option" where
  "js_assoc k [] = None"
| "js_assoc k (kv # kvs) =
     (case js_assoc k kvs of
        Some w \<Rightarrow> Some w
      | None \<Rightarrow> if fst kv = k then Some (snd kv) else None)"

text \<open>
  \<open>v.k\<close> for a value \<open>v\<close> that is not \<open>null\<close> and one of the keys \<open>method\<close>, \<open>id\<close>, \<open>params\<close>,
  \<open>result\<close>, which only an object can have: \<open>None\<close> is \<open>undefined\<close>. On \<open>null\<close> the access
  throws a \<open>TypeError\<close>, which is for the caller to model.
\<close>

definition js_prop :: "json \<Rightarrow> js_string \<Rightarrow> json option" where
  "js_prop v k = (case v of JObject kvs \<Rightarrow> js_assoc k kvs | _ \<Rightarrow> None)"

text \<open>\<open>x != null\<close>: neither \<open>undefined\<close> nor \<open>null\<close>.\<close>

definition not_nullish :: "json option \<Rightarrow> bool" where
  "not_nullish x = (x \<noteq> None \<and> x \<noteq> Some JNull)"

text \<open>\<open>xs[i]\<close> on an array is \<open>undefined\<close> out of range.\<close>

definition js_index :: "'a list \<Rightarrow> nat \<Rightarrow> 'a option" where
  "js_index xs i = (if i < length xs then Some (xs ! i) else None)"

text \<open>The decimal digits of a number, the key under which an object holds index \<open>i\<close>.\<close>

function decimal :: "nat \<Rightarrow> js_string" where
  "decimal n = (if n < 10 then [48 + n] else decimal (n div 10) @ [48 + n mod 10])"
  by pat_completeness auto
termination
  by (relation "measure id") auto

declare decimal.simps [simp del]

text \<open>
  \<open>x[i]\<close> for an index \<open>i\<close>: a \<open>TypeError\<close> on \<open>undefined\<close> and \<open>null\<close>, the element of an
  array, the code unit of a string, the member of an object, \<open>undefined\<close> on a number
  or a boolean.
\<close>

definition js_elem :: "json option \<Rightarrow> nat \<Rightarrow> exn + json option" where
  "js_elem x i =
     (case x of
        None \<Rightarrow> Inl TypeError
      | Some v \<Rightarrow>
          (case v of
             JNull \<Rightarrow> Inl TypeError
           | JBool b \<Rightarrow> Inr None
           | JNumber r \<Rightarrow> Inr None
           | JInfinity b \<Rightarrow> Inr None
           | JString s \<Rightarrow> Inr (if i < length s then Some (JString [s ! i]) else None)
           | JArray xs \<Rightarrow> Inr (js_index xs i)
           | JObject kvs \<Rightarrow> Inr (js_assoc (decimal i) kvs)))"

text \<open>
  \<open>Buffer.from(s, 'hex')\<close> for a string of code units: as \<open>Buffer_fromHex\<close>; a code unit
  that is not a hex digit ends the decoding.
\<close>

definition hex_unit_value :: "nat \<Rightarrow> nat option" where
  "hex_unit_value n =
     (if 48 \<le> n \<and> n \<le> 57 then Some (n - 48)
      else if 97 \<le> n \<and> n \<le> 102 then Some (n - 87)
      else if 65 \<le> n \<and> n \<le> 70 then Some (n - 55)
      else None)"

fun Buffer_fromHex_units :: "js_string \<Rightarrow> Buffer" where
  "Buffer_fromHex_units (a # b # rest) =
     (case hex_unit_value a of
        None \<Rightarrow> []
      | Some x \<Rightarrow>
          (case hex_unit_value b of
             None \<Rightarrow> []
           | Some y \<Rightarrow> of_nat (x * 16 + y) # Buffer_fromHex_units rest))"
| "Buffer_fromHex_units _ = []"

text \<open>
  \<open>Buffer.from(x, 'hex')\<close> for any \<open>x\<close>: a \<open>TypeError\<close> on \<open>undefined\<close>, \<open>null\<close>, a boolean
  and a number, the decoded bytes of a string. What Node makes of an array or an
  object is the parameter \<open>Buffer_from_object\<close>.
\<close>

definition Buffer_from ::
  "(json \<Rightarrow> exn + Buffer) \<Rightarrow> json option \<Rightarrow> exn + Buffer" where
  "Buffer_from Buffer_from_object x =
     (case x of
        None \<Rightarrow> Inl TypeError
      | Some v \<Rightarrow>
          (case v of
             JNull \<Rightarrow> Inl TypeError
           | JBool b \<Rightarrow> Inl TypeError
           | JNumber r \<Rightarrow> Inl TypeError
           | JInfinity b \<Rightarrow> Inl TypeError
           | JString s \<Rightarrow> Inr (Buffer_fromHex_units s)
           | JArray xs \<Rightarrow> Buffer_from_object v
           | JObject kvs \<Rightarrow> Buffer_from_object v))"

text \<open>
  An outgoing request (the members \<open>id\<close> and \<open>method\<close> are the fields \<open>id'\<close> and
  \<open>method'\<close>).
\<close>

record StratumRequest =
  id' :: int
  method' :: string
  params :: json

text \<open>
  \<open>requestsSent.get(x)\<close>: the keys of the map are the integers that \<open>send\<close> has put
  there, so only a number that is such an integer finds an entry.
\<close>

definition requestsSent_get :: "(int \<rightharpoonup> string) \<Rightarrow> json \<Rightarrow> string option" where
  "requestsSent_get m x =
     (case x of
        JNumber r \<Rightarrow> if r = of_int \<lfloor>r\<rfloor> then m \<lfloor>r\<rfloor> else None
      | _ \<Rightarrow> None)"

text \<open>What the session asks of its miner; \<open>None\<close> is the argument \<open>undefined\<close>.\<close>

datatype miner_call =
  setTarget "json option"
| newWork "json option" "json option"
| waitForWork
| setGraffiti Buffer

subsection \<open>State\<close>

text \<open>
  The fields of the class, then what the session does to its socket, timers, logger
  and miner: the number of \<open>socket.connect\<close> and \<open>socket.end\<close> calls, the requests written,
  whether the error and close listeners are registered, the delays passed to
  \<open>setTimeout\<close>, the lines logged and the calls to the miner.
\<close>

record StratumClient =
  graffiti :: Buffer
  started :: bool
  connected :: bool
  connectWarned :: bool
  connectTimeout :: "nat option"
  requestsSent :: "int \<rightharpoonup> string"
  nextMessageId :: int
  socket_connect_calls :: nat
  socket_end_calls :: nat
  socket_written :: "StratumRequest list"
  socket_listeners :: bool
  timeouts :: "nat list"
  log :: "log_entry list"
  miner_calls :: "miner_call list"

definition StratumClient_new :: "Buffer \<Rightarrow> StratumClient" where
  "StratumClient_new g =
     \<lparr>graffiti = g,
      started = False,
      connected = False,
      connectWarned = False,
      connectTimeout = None,
      requestsSent = Map.empty,
      nextMessageId = 0,
      socket_connect_calls = 0,
      socket_end_calls = 0,
      socket_written = [],
      socket_listeners = False,
      timeouts = [],
      log = [],
      miner_calls = []\<rparr>"

definition client_log :: "level \<Rightarrow> string \<Rightarrow> StratumClient \<Rightarrow> StratumClient" where
  "client_log l msg c = c\<lparr>log := log c @ [Log l msg []]\<rparr>"

definition miner :: "miner_call \<Rightarrow> StratumClient \<Rightarrow> StratumClient" where
  "miner call c = c\<lparr>miner_calls := miner_calls c @ [call]\<rparr>"

subsection \<open>Sending\<close>

definition send :: "StratumRequest \<Rightarrow> StratumClient \<Rightarrow> StratumClient" where
  "send message c =
     (if \<not> connected c then c
      else
        (let c1 = c\<lparr>requestsSent := (requestsSent c)(StratumRequest.id' message \<mapsto>
                                                        StratumRequest.method' message)\<rparr>
         in c1\<lparr>socket_written := socket_written c1 @ [message]\<rparr>))"

definition subscribe :: "Buffer \<Rightarrow> StratumClient \<Rightarrow> StratumClient" where
  "subscribe g c =
     (let message = \<lparr>id' = nextMessageId c, method' = ''mining.subscribe'',
                     params = JString (ascii (Buffer_toHex g))\<rparr>
      in send message (c\<lparr>nextMessageId := nextMessageId c + 1\<rparr>))"


subsection \<open>Connecting\<close>

text \<open>
  \<open>connectSocket\<close> issues \<open>socket.connect(port, host)\<close>. \<open>startConnecting\<close> is asynchronous:
  it calls \<open>connectSocket\<close> and suspends; \<open>startConnecting_resumed\<close> is the rest of its body,
  run when the attempt has settled with the outcome \<open>connected'\<close>. So a call of
  \<open>startConnecting\<close>, from \<open>start\<close>, from \<open>onDisconnect\<close> or from a timer, is \<open>connectSocket\<close>
  now and \<open>startConnecting_resumed\<close> later.
\<close>

definition connectSocket :: "StratumClient \<Rightarrow> StratumClient" where
  "connectSocket c = c\<lparr>socket_connect_calls := socket_connect_calls c + 1\<rparr>"

definition onConnect :: "StratumClient \<Rightarrow> StratumClient" where
  "onConnect c =
     (let c1 = c\<lparr>connected := True\<rparr>;
          c2 = c1\<lparr>socket_listeners := True\<rparr>;
          c3 = client_log Info ''Successfully connected to pool'' c2;
          c4 = client_log Info ''Listening to pool for new work'' c3
      in subscribe (graffiti c4) c4)"

definition startConnecting_resumed :: "bool \<Rightarrow> StratumClient \<Rightarrow> StratumClient" where
  "startConnecting_resumed connected' c =
     (if \<not> started c then c
      else if \<not> connected' then
        (let c1 = (if \<not> connectWarned c
                   then (client_log Warn ''Failed to connect to pool, retrying...'' c)
                          \<lparr>connectWarned := True\<rparr>
                   else c)
         in c1\<lparr>connectTimeout := Some (length (timeouts c1)), timeouts := timeouts c1 @ [5000]\<rparr>)
      else onConnect (c\<lparr>connectWarned := False\<rparr>))"

definition start :: "StratumClient \<Rightarrow> StratumClient" where
  "start c =
     (if started c then c
      else connectSocket (client_log Info ''Connecting to pool...'' (c\<lparr>started := True\<rparr>)))"

definition stop :: "StratumClient \<Rightarrow> StratumClient" where
  "stop c = c\<lparr>socket_end_calls := socket_end_calls c + 1\<rparr>"

definition onDisconnect :: "StratumClient \<Rightarrow> StratumClient" where
  "onDisconnect c =
     (let c1 = c\<lparr>connected := False\<rparr>;
          c2 = c1\<lparr>socket_listeners := False\<rparr>;
          c3 = miner waitForWork c2;
          c4 = client_log Info ''Disconnected from pool unexpectedly. Reconnecting.'' c3
      in connectSocket c4)"

text \<open>The callback of the timer armed by a failed attempt: \<open>() => void this.startConnecting()\<close>.\<close>

definition timeout_fired :: "StratumClient \<Rightarrow> StratumClient" where
  "timeout_fired c = connectSocket c"

text \<open>
  The connect loop, from a state in which an attempt is in flight: the attempts settle
  with the outcomes listed; after an attempt that armed a timer the timer fires and
  its callback starts the next attempt.
\<close>

fun connect_loop :: "bool list \<Rightarrow> StratumClient \<Rightarrow> StratumClient" where
  "connect_loop [] c = c"
| "connect_loop (r # rs) c =
     (let c1 = startConnecting_resumed r c
      in if length (timeouts c1) > length (timeouts c)
         then connect_loop rs (timeout_fired c1)
         else c1)"

subsection \<open>Incoming data\<close>

text \<open>\<open>String.prototype.trim\<close> removes white space and line terminators at both ends.\<close>

definition js_whitespace :: "nat \<Rightarrow> bool" where
  "js_whitespace u =
     (u \<in> {0x9, 0xA, 0xB, 0xC, 0xD, 0x20, 0xA0, 0x1680, 0x2028, 0x2029, 0x202F, 0x205F,
            0x3000, 0xFEFF}
      \<or> (0x2000 \<le> u \<and> u \<le> 0x200A))"

definition js_trim :: "js_string \<Rightarrow> js_string" where
  "js_trim s = rev (dropWhile js_whitespace (rev (dropWhile js_whitespace s)))"

text \<open>\<open>s.split(sep)\<close> for a separator of one code unit; the result is never empty.\<close>

fun js_split :: "nat \<Rightarrow> js_string \<Rightarrow> js_string list" where
  "js_split sep [] = [[]]"
| "js_split sep (x # xs) =
     (if x = sep then [] # js_split sep xs
      else (case js_split sep xs of
              [] \<Rightarrow> [[x]]
            | l # ls \<Rightarrow> (x # l) # ls))"

text \<open>
  The loop of \<open>onData\<close> over the lines of a chunk. \<open>JSON_parse\<close> is a parameter and returns
  \<open>None\<close> where \<open>JSON.parse\<close> throws a \<open>SyntaxError\<close>. Nothing in \<open>onData\<close> catches an
  exception: a \<open>SyntaxError\<close>, and a \<open>TypeError\<close> from \<open>payload.method\<close> on \<open>null\<close>, from
  \<open>message.params[0]\<close> without \<open>params\<close> or from \<open>Buffer.from\<close>, leaves \<open>onData\<close> with the
  state as it is at that point. The result is the exception thrown, if any, and
  the state.
\<close>

fun onData_loop ::
  "(js_string \<Rightarrow> json option) \<Rightarrow> (json \<Rightarrow> exn + Buffer) \<Rightarrow> js_string list \<Rightarrow>
   StratumClient \<Rightarrow> exn option \<times> StratumClient" where
  "onData_loop JSON_parse Buffer_from_object [] c = (None, c)"
| "onData_loop JSON_parse Buffer_from_object (dataString # rest) c =
     (case JSON_parse dataString of
        None \<Rightarrow> (Some SyntaxError, c)
      | Some payload \<Rightarrow>
          if payload = JNull then (Some TypeError, c)
          else if not_nullish (js_prop payload (ascii ''method'')) then
            (if js_prop payload (ascii ''method'') = Some (JString (ascii ''mining.set_target''))
             then
               (case js_elem (js_prop payload (ascii ''params'')) 0 of
                  Inl e \<Rightarrow> (Some e, client_log Info ''set_target received'' c)
                | Inr x \<Rightarrow>
                    onData_loop JSON_parse Buffer_from_object rest
                      (miner (setTarget x) (client_log Info ''set_target received'' c)))
             else if js_prop payload (ascii ''method'') = Some (JString (ascii ''mining.notify''))
             then
               (case js_elem (js_prop payload (ascii ''params'')) 0 of
                  Inl e \<Rightarrow> (Some e, client_log Info ''mining notify received'' c)
                | Inr x \<Rightarrow>
                    (case js_elem (js_prop payload (ascii ''params'')) 1 of
                       Inl e \<Rightarrow> (Some e, client_log Info ''mining notify received'' c)
                     | Inr y \<Rightarrow>
                         onData_loop JSON_parse Buffer_from_object rest
                           (miner (newWork x y) (client_log Info ''mining notify received'' c))))
             else if js_prop payload (ascii ''method'') =
                       Some (JString (ascii ''mining.wait_for_work''))
             then
               onData_loop JSON_parse Buffer_from_object rest
                 (miner waitForWork (client_log Info ''wait_for_work received'' c))
             else
               onData_loop JSON_parse Buffer_from_object rest
                 (client_log Info ''unrecognized method'' c))
          else
            (case js_prop payload (ascii ''id'') of
               None \<Rightarrow>
                 onData_loop JSON_parse Buffer_from_object rest
                   (client_log Info ''unrecognized message received'' c)
             | Some i \<Rightarrow>
                 if i = JNull then
                   onData_loop JSON_parse Buffer_from_object rest
                     (client_log Info ''unrecognized message received'' c)
                 else
                   (case requestsSent_get (requestsSent c) i of
                      None \<Rightarrow> (None, client_log Info ''unrecognized response received'' c)
                    | Some responseType \<Rightarrow>
                        if responseType = ''mining.subscribe'' then
                          (case Buffer_from Buffer_from_object (js_prop payload (ascii ''result'')) of
                             Inl e \<Rightarrow> (Some e, c)
                           | Inr g \<Rightarrow>
                               onData_loop JSON_parse Buffer_from_object rest
                                 (miner (setGraffiti g) (c\<lparr>graffiti := g\<rparr>)))
                        else
                          onData_loop JSON_parse Buffer_from_object rest
                            (client_log Info ''unrecognized response'' c))))"

declare onData_loop.simps(2) [simp del]

definition onData ::
  "(js_string \<Rightarrow> json option) \<Rightarrow> (json \<Rightarrow> exn + Buffer) \<Rightarrow> Buffer \<Rightarrow> StratumClient \<Rightarrow>
   exn option \<times> StratumClient" where
  "onData JSON_parse Buffer_from_object data c =
     onData_loop JSON_parse Buffer_from_object
       (js_split 0xA (js_trim (Buffer_toString data))) c"

section \<open>Example states\<close>

text \<open>
  A template as the node delivers it (its network target is \<open>2^224\<close>), and the pool after
  its constructor and the arrival of one and of two such templates: the current job
  is then 0, respectively 1.
\<close>

definition example_target :: string where
  "example_target = ''0000000100000000000000000000000000000000000000000000000000000000''"

definition example_template :: SerializedBlockTemplate where
  "example_template =
     \<lparr>header = \<lparr>Header.graffiti = [], Header.randomness = 0, Header.target = example_target,
                Header.timestamp = 1000, header_rest = []\<rparr>,
      previousBlockInfo = Some \<lparr>PreviousBlockInfo.target = example_target,
                               PreviousBlockInfo.timestamp = 900\<rparr>,
      template_rest = []\<rparr>"

definition example_pool :: MiningPool where
  "example_pool =
     projr (processNewBlock (\<lambda>b. 4294967296) example_template
              (MiningPool_new (\<lambda>r. example_template)))"

definition example_pool2 :: MiningPool where
  "example_pool2 = projr (processNewBlock (\<lambda>b. 4294967296) example_template example_pool)"

text \<open>The bytes of \<open>floor(2^256 / 3700000)\<close>.\<close>

definition example_pool_target :: Buffer where
  "example_pool_target =
     [0x00, 0x00, 0x04, 0x88, 0xcd, 0x4e, 0x07, 0xa7, 0xfc, 0xa7, 0x00, 0x6d, 0x64, 0x58, 0xfa, 0x78,
      0xb4, 0xaf, 0x3c, 0xea, 0x4f, 0x14, 0xe2, 0x9a, 0xa0, 0x07, 0x03, 0x9d, 0x94, 0xb3, 0xd7, 0xda]"

text \<open>
  Two header hashes: \<open>hash_above\<close> is greater than the pool target \<open>0x00000488cd4e...\<close> as a
  number, \<open>hash_below\<close> is smaller.
\<close>

definition hash_above :: Buffer where
  "hash_above =
     [0x00, 0x00, 0x04, 0xc2, 0x80, 0x00, 0x00, 0x00, 0x00, 0x00, 0x00, 0x00, 0x00, 0x00, 0x00, 0x00,
      0x00, 0x00, 0x00, 0x00, 0x00, 0x00, 0x00, 0x00, 0x00, 0x00, 0x00, 0x00, 0x00, 0x00, 0x00, 0x00]"

definition hash_below :: Buffer where
  "hash_below =
     [0x00, 0x00, 0x04, 0x80, 0x80, 0x4f, 0x00, 0x00, 0x00, 0x00, 0x00, 0x00, 0x00, 0x00, 0x00, 0x00,
      0x00, 0x00, 0x00, 0x00, 0x00, 0x00, 0x00, 0x00, 0x00, 0x00, 0x00, 0x00, 0x00, 0x00, 0x00, 0x00]"

text \<open>A pool whose ledger holds five shares of one graffiti.\<close>

definition example_ledger_pool :: MiningPool where
  "example_ledger_pool =
     example_pool\<lparr>shares :=
       map (\<lambda>t. \<lparr>Share.timestamp = t, Share.graffiti = ''ab'', Share.miningRequestId = 0,
                  Share.randomness = t\<rparr>) [1000, 2000, 3000, 4000, 5000]\<rparr>"

text \<open>The pool after one template and one retarget tick: job 1 is current.\<close>

definition example_retargeted_pool :: MiningPool where
  "example_retargeted_pool =
     projr (recalculateTarget (\<lambda>t h d. d) (\<lambda>d. 2 ^ 224) 11000 example_pool)"

section \<open>Events of the worker session\<close>




subsection \<open>Example session and messages\<close>

text \<open>The bytes of an ASCII text.\<close>

definition ascii_bytes :: "string \<Rightarrow> Buffer" where
  "ascii_bytes s = map of_char s"

text \<open>
  \<open>JSON.parse\<close> on the lines of the examples: seven JSON texts, and \<open>None\<close> for the one
  other line they use, \<open>x\<close>, which is not JSON.
\<close>

definition example_parse :: "js_string \<Rightarrow> json option" where
  \<open>example_parse l =
     (if l = ascii ''{"method":"mining.wait_for_work"}'' then
        Some (JObject [(ascii ''method'', JString (ascii ''mining.wait_for_work''))])
      else if l = ascii ''{"method":"mining.unknown"}'' then
        Some (JObject [(ascii ''method'', JString (ascii ''mining.unknown''))])
      else if l = ascii ''{"method":"mining.set_target"}'' then
        Some (JObject [(ascii ''method'', JString (ascii ''mining.set_target''))])
      else if l = ascii ''{"id":0,"result":"cd"}'' then
        Some (JObject [(ascii ''id'', JNumber 0), (ascii ''result'', JString (ascii ''cd''))])
      else if l = ascii ''{"id":7,"result":"cd"}'' then
        Some (JObject [(ascii ''id'', JNumber 7), (ascii ''result'', JString (ascii ''cd''))])
      else if l = ascii ''{}'' then Some (JObject [])
      else if l = ascii ''null'' then Some JNull
      else None)\<close>

text \<open>
  \<open>Buffer.from\<close> on arrays and objects, which the examples do not reach: any function
  does.
\<close>

definition example_Buffer_from_object :: "json \<Rightarrow> exn + Buffer" where
  "example_Buffer_from_object v = Inl TypeError"

text \<open>A session that was started and whose first connect attempt succeeded.\<close>

definition example_client :: StratumClient where
  "example_client = startConnecting_resumed True (start (StratumClient_new [0xAB]))"

section \<open>Properties of the pool orchestrator\<close>

subsection \<open>The example states\<close>

lemma pool_target_bytes:
  "toBytesBE (BigInt_div (2 ^ 256) 3700000) 32 = example_pool_target"
  by (simp add: toBytesBE_def BigInt_div_def upt_rec example_pool_target_def)

lemma MiningPool_new_simps:
  "shares (MiningPool_new h0) = []"
  "nextMiningRequestId (MiningPool_new h0) = 0"
  "miningRequestBlocks (MiningPool_new h0) = Map.empty"
  "heap (MiningPool_new h0) = h0"
  "next_ref (MiningPool_new h0) = 0"
  "difficulty (MiningPool_new h0) = 3700000"
  "MiningPool.target (MiningPool_new h0) = example_pool_target"
  "currentHeadTimestamp (MiningPool_new h0) = None"
  "currentHeadDifficulty (MiningPool_new h0) = None"
  "submitBlock_calls (MiningPool_new h0) = []"
  "newWork_calls (MiningPool_new h0) = []"
  "MiningPool.log (MiningPool_new h0) = []"
  by (simp_all add: MiningPool_new_def Let_def pool_target_bytes del: power_numeral)

lemma example_pool_simps:
  "shares example_pool = []"
  "nextMiningRequestId example_pool = 1"
  "miningRequestBlocks example_pool = [0 \<mapsto> 0]"
  "heap example_pool = (\<lambda>r. example_template)"
  "next_ref example_pool = 1"
  "difficulty example_pool = 3700000"
  "MiningPool.target example_pool = example_pool_target"
  "currentHeadTimestamp example_pool = Some 900"
  "currentHeadDifficulty example_pool = Some 4294967296"
  "submitBlock_calls example_pool = []"
  "newWork_calls example_pool = [(0, example_template, 4294967296, 900)]"
  "MiningPool.log example_pool = []"
  by (simp_all add: example_pool_def processNewBlock_def distributeNewBlock_def
        restartCalculateTargetInterval_def MiningPool_new_simps Let_def example_template_def
        fun_upd_idem)

lemma example_pool2_simps:
  "shares example_pool2 = []"
  "nextMiningRequestId example_pool2 = 2"
  "miningRequestBlocks example_pool2 = [0 \<mapsto> 0, 1 \<mapsto> 1]"
  "heap example_pool2 = (\<lambda>r. example_template)"
  "difficulty example_pool2 = 3700000"
  "MiningPool.target example_pool2 = example_pool_target"
  "currentHeadTimestamp example_pool2 = Some 900"
  "currentHeadDifficulty example_pool2 = Some 4294967296"
  "submitBlock_calls example_pool2 = []"
  by (simp_all add: example_pool2_def processNewBlock_def distributeNewBlock_def
        restartCalculateTargetInterval_def example_pool_simps Let_def example_template_def
        fun_upd_idem)

subsection \<open>Stale submissions\<close>

text \<open>
  C2. A \<open>submitWork\<close> call whose \<open>miningRequestId\<close> is not \<open>nextMiningRequestId - 1\<close> is
  rejected: it logs one debug line and changes nothing else, so no share is appended
  and no block is submitted to the node, whatever header hash the submission has
  (\<open>blake3\<close> and \<open>mineableHeaderString\<close> are arbitrary).
\<close>

theorem submitWork_stale_rejected:
  assumes "rid \<noteq> nextMiningRequestId p - 1"
  shows "submitWork mineableHeaderString blake3 now added rid rand graf p
           = p\<lparr>MiningPool.log := MiningPool.log p @ [Log Debug ''Stale share submitted'' []]\<rparr>
         \<and> shares (submitWork mineableHeaderString blake3 now added rid rand graf p) = shares p
         \<and> submitBlock_calls (submitWork mineableHeaderString blake3 now added rid rand graf p)
             = submitBlock_calls p"
  using assms by (simp add: submitWork_def pool_log_def)

text \<open>
  Jobs 0 and 1 have been distributed; a submission against job 0 whose hash is all zeros,
  below every target, records nothing.
\<close>

theorem submitWork_stale_rejected_witness:
  "0 \<noteq> nextMiningRequestId example_pool2 - 1
   \<and> shares (submitWork (\<lambda>h. []) (\<lambda>b. replicate 32 0) 2000 True 0 7 [0xAB] example_pool2) = []
   \<and> submitBlock_calls (submitWork (\<lambda>h. []) (\<lambda>b. replicate 32 0) 2000 True 0 7 [0xAB] example_pool2)
       = []"
  using submitWork_stale_rejected [of 0 example_pool2 "\<lambda>h. []" "\<lambda>b. replicate 32 0" 2000 True 7 "[0xAB]"]
  by (simp add: example_pool2_simps)

subsection \<open>What a submission for the current job does\<close>

text \<open>
  For the current job the two comparisons are made one after the other on the same
  hash, and neither depends on the other's outcome: the first alone decides whether
  one share is appended, the second alone whether the template is submitted to
  the node.
\<close>

lemma submitWork_current_effects:
  assumes "rid = nextMiningRequestId p - 1" and "miningRequestBlocks p rid = Some r"
  shows "shares (submitWork mineableHeaderString blake3 now added rid rand graf p) =
           (if Buffer_lt
                 (blake3 (mineableHeaderString
                    ((header (heap p r))\<lparr>Header.graffiti := Buffer_toHex graf,
                                             Header.randomness := rand\<rparr>)))
                 (MiningPool.target p)
            then shares p @ [\<lparr>Share.timestamp = now, Share.graffiti = Buffer_toHex graf,
                              Share.miningRequestId = rid, Share.randomness = rand\<rparr>]
            else shares p)"
    and "submitBlock_calls (submitWork mineableHeaderString blake3 now added rid rand graf p) =
           (if Buffer_lt
                 (blake3 (mineableHeaderString
                    ((header (heap p r))\<lparr>Header.graffiti := Buffer_toHex graf,
                                             Header.randomness := rand\<rparr>)))
                 (Buffer_fromHex (Header.target (header (heap p r))))
            then submitBlock_calls p @
                   [(heap p r)\<lparr>header := (header (heap p r))\<lparr>Header.graffiti := Buffer_toHex graf,
                                                                 Header.randomness := rand\<rparr>\<rparr>]
            else submitBlock_calls p)"
  using assms by (simp_all add: submitWork_def pool_log_def submitShare_def Let_def)

text \<open>The job distributed last is stored under \<open>nextMiningRequestId - 1\<close>.\<close>

lemma distributeNewBlock_latest:
  assumes "distributeNewBlock r p = Inr p'"
  shows "miningRequestBlocks p' (nextMiningRequestId p' - 1) = Some r"
  using assms
  by (auto simp: distributeNewBlock_def Let_def split: option.splits)

subsection \<open>The comparison with the targets\<close>

lemma pool_target_string:
  "Buffer_toString example_pool_target =
     [0x0, 0x0, 0x4, 0xfffd, 0xfffd, 0x4e, 0x7, 0xfffd, 0xfffd, 0xfffd, 0x0, 0x6d, 0x64, 0x58,
      0xfffd, 0x78, 0xfffd, 0xfffd, 0x3c, 0xfffd, 0x4f, 0x14, 0x26a0, 0x7, 0x3, 0xfffd, 0xfffd,
      0xfffd, 0xfffd, 0xfffd]"
  by (simp add: example_pool_target_def Buffer_toString_def utf16_units_def in_range_def)

lemma hash_above_string:
  "Buffer_toString hash_above =
     [0, 0, 4, 0x80, 0, 0, 0, 0, 0, 0, 0, 0, 0, 0, 0, 0, 0, 0, 0, 0, 0, 0, 0, 0, 0, 0, 0, 0, 0, 0, 0]"
  by (simp add: hash_above_def Buffer_toString_def utf16_units_def in_range_def)

lemma hash_below_string:
  "Buffer_toString hash_below =
     [0, 0, 4, 0xfffd, 0xfffd, 0x4f, 0, 0, 0, 0, 0, 0, 0, 0, 0, 0, 0, 0, 0, 0, 0, 0, 0, 0, 0, 0,
      0, 0, 0, 0, 0, 0]"
  by (simp add: hash_below_def Buffer_toString_def utf16_units_def in_range_def)

lemma example_target_string:
  "Buffer_toString (Buffer_fromHex example_target) =
     [0, 0, 0, 1, 0, 0, 0, 0, 0, 0, 0, 0, 0, 0, 0, 0, 0, 0, 0, 0, 0, 0, 0, 0, 0, 0, 0, 0, 0, 0, 0, 0]"
  by (simp add: example_target_def hex_value_def Buffer_toString_def utf16_units_def in_range_def)

lemma pool_target_value: "be_value example_pool_target = 2 ^ 256 div 3700000"
  by (simp add: example_pool_target_def be_value_def)

lemma hash_above_value: "be_value example_pool_target < be_value hash_above"
  by (simp add: hash_above_def be_value_def example_pool_target_def)

lemma hash_below_value: "be_value hash_below < be_value example_pool_target"
  by (simp add: hash_below_def be_value_def example_pool_target_def)

lemma Buffer_lt_hash_above: "Buffer_lt hash_above example_pool_target"
  by (simp add: Buffer_lt_def pool_target_string hash_above_string)

lemma Buffer_lt_hash_below: "\<not> Buffer_lt hash_below example_pool_target"
  by (simp add: Buffer_lt_def pool_target_string hash_below_string)

lemma Buffer_lt_hash_above_network: "\<not> Buffer_lt hash_above (Buffer_fromHex example_target)"
  by (simp add: Buffer_lt_def example_target_string hash_above_string)

lemma Buffer_lt_hash_below_network: "\<not> Buffer_lt hash_below (Buffer_fromHex example_target)"
  by (simp add: Buffer_lt_def example_target_string hash_below_string)

lemma example_header_target:
  "Header.target (header example_template) = example_target"
  by (simp add: example_template_def)

text \<open>
  C1. The claim fails at a submission for the current job 0 whose header hashes to
  \<open>hash_above\<close>: the hash is above the pool target \<open>floor(2^256 / 3700000)\<close> as a number, and
  the pool appends a share all the same, because \<open><\<close> on two Buffers compares their
  UTF-8 decodings: the bytes \<open>c2 80\<close> of the hash decode to U+0080, the byte \<open>88\<close> of the
  target to U+FFFD. (No block is submitted: the hash is above the network target in
  both orders.)
\<close>

theorem submitWork_share_above_pool_target:
  "nextMiningRequestId example_pool - 1 = 0
   \<and> be_value (MiningPool.target example_pool) < be_value hash_above
   \<and> shares (submitWork (\<lambda>h. []) (\<lambda>b. hash_above) 2000 True 0 7 [0xAB] example_pool)
       = [\<lparr>Share.timestamp = 2000, Share.graffiti = ''ab'', Share.miningRequestId = 0,
           Share.randomness = 7\<rparr>]
   \<and> submitBlock_calls (submitWork (\<lambda>h. []) (\<lambda>b. hash_above) 2000 True 0 7 [0xAB] example_pool)
       = []"
  using submitWork_current_effects [of 0 example_pool 0 "\<lambda>h. []" "\<lambda>b. hash_above" 2000 True 7 "[0xAB]"]
  by (simp add: example_pool_simps example_header_target hash_above_value Buffer_lt_hash_above
        Buffer_lt_hash_above_network Buffer_toHex_def hex_digit_def)

text \<open>
  C4. The pool target of the constructor is \<open>floor(2^256 / 3700000)\<close> in 32 big-endian
  bytes, the difficulty being 3700000. The second half of the claim fails at a
  submission for the current job 0 whose header hashes to \<open>hash_below\<close>: the hash is
  below the pool target as a number, yet \<open><\<close> on the two Buffers is false (both decode to
  U+FFFD twice after the common prefix, then \<open>0x4f\<close> against \<open>0x4e\<close>), no share is recorded
  and the share count of the graffiti stays 0.
\<close>

theorem pool_target_share_missed:
  "difficulty example_pool = 3700000
   \<and> MiningPool.target example_pool = toBytesBE (2 ^ 256 div 3700000) 32
   \<and> be_value (MiningPool.target example_pool) = 2 ^ 256 div 3700000
   \<and> nextMiningRequestId example_pool - 1 = 0
   \<and> be_value hash_below < be_value (MiningPool.target example_pool)
   \<and> graffitiShareCount ''ab''
        (shares (submitWork (\<lambda>h. []) (\<lambda>b. hash_below) 2000 True 0 7 [0xAB] example_pool)) = 0"
proof -
  have t: "MiningPool.target example_pool = example_pool_target"
    by (simp add: example_pool_simps)
  have h1: "difficulty example_pool = 3700000"
    by (simp add: example_pool_simps)
  have "toBytesBE (2 ^ 256 div 3700000) 32 = example_pool_target"
    by (simp add: toBytesBE_def upt_rec example_pool_target_def)
  then have h2: "MiningPool.target example_pool = toBytesBE (2 ^ 256 div 3700000) 32"
    by (simp only: t)
  have h3: "be_value (MiningPool.target example_pool) = 2 ^ 256 div 3700000"
    by (simp only: t pool_target_value)
  have h4: "nextMiningRequestId example_pool - 1 = 0"
    by (simp add: example_pool_simps)
  have h5: "be_value hash_below < be_value (MiningPool.target example_pool)"
    by (simp only: t hash_below_value)
  have "shares (submitWork (\<lambda>h. []) (\<lambda>b. hash_below) 2000 True 0 7 [0xAB] example_pool) = []"
    using submitWork_current_effects(1) [of 0 example_pool 0 "\<lambda>h. []" "\<lambda>b. hash_below" 2000 True 7 "[0xAB]"]
    by (simp add: example_pool_simps Buffer_lt_hash_below)
  then have h6: "graffitiShareCount ''ab''
        (shares (submitWork (\<lambda>h. []) (\<lambda>b. hash_below) 2000 True 0 7 [0xAB] example_pool)) = 0"
    by (simp add: graffitiShareCount_def)
  show ?thesis
    by (intro conjI h1 h2 h3 h4 h5 h6)
qed

subsection \<open>The retarget tick\<close>

text \<open>
  C3, as the code has it. A retarget tick (head information recorded, current job
  stored) rewrites the target and the timestamp of the current job's template and
  nothing else in it, but it does not keep the job's ID: it stores the same template
  under the next mining request ID as well, advances \<open>nextMiningRequestId\<close> by one and
  broadcasts the template under the new ID.
\<close>

theorem recalculateTarget_redistributes:
  assumes "currentHeadTimestamp p = Some headTimestamp"
    and "currentHeadDifficulty p = Some headDifficulty"
    and "miningRequestBlocks p (nextMiningRequestId p - 1) = Some r"
  shows "recalculateTarget calculateDifficulty fromDifficulty now p =
           Inr (p\<lparr>heap := (heap p)(r := (heap p r)\<lparr>header :=
                       (header (heap p r))\<lparr>
                          Header.target := Buffer_toHex (toBytesBE
                             (fromDifficulty (calculateDifficulty now headTimestamp headDifficulty)) 32),
                          Header.timestamp := now\<rparr>\<rparr>),
                  nextMiningRequestId := nextMiningRequestId p + 1,
                  miningRequestBlocks := (miningRequestBlocks p)(nextMiningRequestId p \<mapsto> r),
                  newWork_calls := newWork_calls p @
                    [(nextMiningRequestId p,
                      (heap p r)\<lparr>header :=
                        (header (heap p r))\<lparr>
                          Header.target := Buffer_toHex (toBytesBE
                             (fromDifficulty (calculateDifficulty now headTimestamp headDifficulty)) 32),
                          Header.timestamp := now\<rparr>\<rparr>,
                      headDifficulty, headTimestamp)]\<rparr>)"
  using assms by (simp add: recalculateTarget_def distributeNewBlock_def Let_def)

theorem recalculateTarget_redistributes_witness:
  "currentHeadTimestamp example_pool = Some 900
   \<and> currentHeadDifficulty example_pool = Some 4294967296
   \<and> miningRequestBlocks example_pool (nextMiningRequestId example_pool - 1) = Some 0
   \<and> recalculateTarget (\<lambda>t h d. d) (\<lambda>d. 2 ^ 224) 11000 example_pool =
       Inr (example_pool\<lparr>heap := (heap example_pool)(0 := (heap example_pool 0)\<lparr>header :=
                       (header (heap example_pool 0))\<lparr>
                          Header.target := Buffer_toHex (toBytesBE (2 ^ 224) 32),
                          Header.timestamp := 11000\<rparr>\<rparr>),
                  nextMiningRequestId := 2,
                  miningRequestBlocks := (miningRequestBlocks example_pool)(1 \<mapsto> 0),
                  newWork_calls := newWork_calls example_pool @
                    [(1,
                      (heap example_pool 0)\<lparr>header :=
                        (header (heap example_pool 0))\<lparr>
                          Header.target := Buffer_toHex (toBytesBE (2 ^ 224) 32),
                          Header.timestamp := 11000\<rparr>\<rparr>,
                      4294967296, 900)]\<rparr>)"
  using recalculateTarget_redistributes [of example_pool 900 4294967296 0 "\<lambda>t h d. d" "\<lambda>d. 2 ^ 224" 11000]
  by (simp add: example_pool_simps del: power_numeral)

text \<open>
  The claim as stated fails: job 0 is current before the tick, job 1 after it, and the
  tick broadcasts under ID 1.
\<close>

theorem retarget_changes_job_id:
  "nextMiningRequestId example_pool - 1 = 0
   \<and> \<not> isl (recalculateTarget (\<lambda>t h d. d) (\<lambda>d. 2 ^ 224) 11000 example_pool)
   \<and> nextMiningRequestId
        (projr (recalculateTarget (\<lambda>t h d. d) (\<lambda>d. 2 ^ 224) 11000 example_pool)) - 1 = 1
   \<and> map fst (newWork_calls
        (projr (recalculateTarget (\<lambda>t h d. d) (\<lambda>d. 2 ^ 224) 11000 example_pool))) = [0, 1]"
  by (simp add: recalculateTarget_def distributeNewBlock_def Let_def example_pool_simps)

subsection \<open>Stored templates and submissions\<close>

text \<open>
  C5, as the code has it. \<open>submitWork\<close> does not work on a copy. A submission for the
  latest job overwrites the graffiti and the randomness of the stored template with
  the submitted values and leaves its other fields, every other template and the
  job map as they are; a rejected submission changes no template.
\<close>

theorem submitWork_heap:
  "miningRequestBlocks (submitWork mineableHeaderString blake3 now added rid rand graf p)
     = miningRequestBlocks p
   \<and> heap (submitWork mineableHeaderString blake3 now added rid rand graf p)
     = (if rid = nextMiningRequestId p - 1
        then (case miningRequestBlocks p rid of
                None \<Rightarrow> heap p
              | Some r \<Rightarrow>
                  (heap p)(r := (heap p r)\<lparr>header :=
                     (header (heap p r))\<lparr>Header.graffiti := Buffer_toHex graf,
                                           Header.randomness := rand\<rparr>\<rparr>))
        else heap p)"
  by (simp add: submitWork_def pool_log_def Let_def split: option.splits)

text \<open>
  The claim as stated fails: a submission for the current job 0, with a hash that
  beats no target, changes the graffiti and the randomness of the stored job.
\<close>

theorem submitWork_rewrites_stored_job:
  "miningRequestBlocks example_pool 0 = Some 0
   \<and> Header.graffiti (header (heap example_pool 0)) = []
   \<and> Header.randomness (header (heap example_pool 0)) = 0
   \<and> Header.graffiti (header (heap
         (submitWork (\<lambda>h. []) (\<lambda>b. replicate 32 0xFF) 2000 True 0 7 [0xAB] example_pool) 0)) = ''ab''
   \<and> Header.randomness (header (heap
         (submitWork (\<lambda>h. []) (\<lambda>b. replicate 32 0xFF) 2000 True 0 7 [0xAB] example_pool) 0)) = 7"
  by (simp add: submitWork_def pool_log_def Let_def example_pool_simps example_template_def
        Buffer_toHex_def hex_digit_def)

text \<open>
  After a retarget tick jobs 0 and 1 are the same template object, so a submission
  for job 1 also rewrites what the superseded job 0 holds.
\<close>

lemma submitWork_rewrites_superseded_job:
  "nextMiningRequestId example_retargeted_pool - 1 = 1
   \<and> miningRequestBlocks example_retargeted_pool 0 = Some 0
   \<and> miningRequestBlocks example_retargeted_pool 1 = Some 0
   \<and> Header.graffiti (header (heap example_retargeted_pool 0)) = []
   \<and> Header.graffiti (header (heap
         (submitWork (\<lambda>h. []) (\<lambda>b. replicate 32 0xFF) 12000 True 1 7 [0xAB]
            example_retargeted_pool) 0)) = ''ab''"
  by (simp add: example_retargeted_pool_def recalculateTarget_def distributeNewBlock_def
        submitWork_def pool_log_def Let_def example_pool_simps example_template_def
        Buffer_toHex_def hex_digit_def)

subsection \<open>Hashrate\<close>

lemma BigInt_div_nonneg: "0 \<le> a \<Longrightarrow> 0 < b \<Longrightarrow> BigInt_div a b = a div b"
  by (cases "a = 0") (simp_all add: BigInt_div_def)

lemma Number_of_BigInt_exact: "\<bar>x\<bar> < 2 ^ 53 \<Longrightarrow> Number_of_BigInt x = Num x"
  by (simp add: Number_of_BigInt_def)

lemma share_quotient_small:
  assumes "n < (2::nat) ^ 32"
  shows "\<bar>int n * 3700000 div 60\<bar> < (2::int) ^ 53"
proof -
  have "int n < 4294967296" using assms by simp
  then show ?thesis by simp
qed

lemma hashrate_value:
  assumes "n < (2::nat) ^ 32"
  shows "Number_of_BigInt (BigInt_div (int n * 3700000) 60) = Num (int n * 3700000 div 60)"
proof -
  have a: "BigInt_div (int n * 3700000) 60 = int n * 3700000 div 60"
    by (rule BigInt_div_nonneg) simp_all
  show ?thesis
    unfolding a by (rule Number_of_BigInt_exact [OF share_quotient_small [OF assms]])
qed

lemma example_ledger_pool_simps:
  "difficulty example_ledger_pool = 3700000"
  "shares example_ledger_pool =
     map (\<lambda>t. \<lparr>Share.timestamp = t, Share.graffiti = ''ab'', Share.miningRequestId = 0,
                Share.randomness = t\<rparr>) [1000, 2000, 3000, 4000, 5000]"
  by (simp_all add: example_ledger_pool_def example_pool_simps)

text \<open>
  C10, as the code has it. With the pool difficulty 3700000 of the constructor (and a
  ledger below the length limit of a JavaScript array) the hashrate of a graffiti is the
  number of its shares with a timestamp later than \<open>now - 60000\<close> ms, times 3700000,
  divided by 60 by BigInt division, which drops the fraction; the aggregate hashrate
  is the same over all shares.
\<close>

theorem hashrate_truncated_quotient:
  assumes "difficulty p = 3700000" and "length (shares p) < 2 ^ 32"
  shows "graffitiHashrate now g p =
           Num (int (length (filter (\<lambda>s. Share.timestamp s > now - 60000 \<and> Share.graffiti s = g)
                               (shares p))) * 3700000 div 60)
         \<and> hashrate now p =
           Num (int (length (filter (\<lambda>s. Share.timestamp s > now - 60000) (shares p)))
                  * 3700000 div 60)"
proof -
  have le: "length (filter P (shares p)) < 2 ^ 32" for P
    using assms(2) length_filter_le [of P "shares p"] by linarith
  have ms: "HASHRATE_TIME_CUTOFF_MILLISECONDS = 60000"
    by (simp add: HASHRATE_TIME_CUTOFF_MILLISECONDS_def HASHRATE_TIME_CUTOFF_SECONDS_def)
  show ?thesis
    unfolding graffitiHashrate_def hashrate_def graffitiShareCountSince_def
      totalShareCountSince_def Let_def ms HASHRATE_TIME_CUTOFF_SECONDS_def assms(1)
    by (intro conjI hashrate_value le)
qed

text \<open>Five shares of graffiti \<open>ab\<close> within the last 60 s: the hashrate is 308333.\<close>

theorem hashrate_truncated_quotient_witness:
  "difficulty example_ledger_pool = 3700000
   \<and> length (shares example_ledger_pool) < 2 ^ 32
   \<and> graffitiHashrate 10000 ''ab'' example_ledger_pool = Num 308333
   \<and> hashrate 10000 example_ledger_pool = Num 308333"
  using hashrate_truncated_quotient [of example_ledger_pool 10000 "''ab''"]
  by (simp add: example_ledger_pool_simps)

text \<open>
  The claim as stated fails: with five shares in the window the hashrate is 308333,
  not \<open>5 * 3700000 / 60\<close>.
\<close>

theorem graffitiHashrate_not_exact_quotient:
  "graffitiShareCountSince ''ab'' (10000 - HASHRATE_TIME_CUTOFF_MILLISECONDS)
     (shares example_ledger_pool) = 5
   \<and> graffitiHashrate 10000 ''ab'' example_ledger_pool = Num 308333
   \<and> real_of_int 308333 \<noteq> 5 * 3700000 / 60"
  by (simp add: graffitiHashrate_def graffitiShareCountSince_def example_ledger_pool_simps
        HASHRATE_TIME_CUTOFF_MILLISECONDS_def HASHRATE_TIME_CUTOFF_SECONDS_def
        BigInt_div_def Number_of_BigInt_def)

section \<open>Properties of the connect loops\<close>

text \<open>The loop once the warning has been given: no further warning.\<close>

lemma connect_loop_warned:
  assumes "StratumClient.started c" and "StratumClient.connectWarned c"
  shows "StratumClient.log (connect_loop (replicate n False @ [True]) c) =
           StratumClient.log c @ [Log Info ''Successfully connected to pool'' [],
                                  Log Info ''Listening to pool for new work'' []]
         \<and> StratumClient.timeouts (connect_loop (replicate n False @ [True]) c) =
             StratumClient.timeouts c @ replicate n 5000
         \<and> socket_connect_calls (connect_loop (replicate n False @ [True]) c) =
             socket_connect_calls c + n
         \<and> StratumClient.started (connect_loop (replicate n False @ [True]) c)
         \<and> \<not> StratumClient.connectWarned (connect_loop (replicate n False @ [True]) c)
         \<and> connected (connect_loop (replicate n False @ [True]) c)"
  using assms
proof (induction n arbitrary: c)
  case 0
  then show ?case
    by (simp add: startConnecting_resumed_def onConnect_def subscribe_def send_def
          client_log_def Let_def)
next
  case (Suc n)
  let ?c1 = "timeout_fired (startConnecting_resumed False c)"
  have c1: "StratumClient.started ?c1" "StratumClient.connectWarned ?c1"
    "StratumClient.log ?c1 = StratumClient.log c"
    "StratumClient.timeouts ?c1 = StratumClient.timeouts c @ [5000]"
    "socket_connect_calls ?c1 = socket_connect_calls c + 1"
    using Suc.prems
    by (simp_all add: startConnecting_resumed_def timeout_fired_def connectSocket_def Let_def)
  have step: "connect_loop (replicate (Suc n) False @ [True]) c =
                connect_loop (replicate n False @ [True]) ?c1"
    using Suc.prems by (simp add: startConnecting_resumed_def Let_def)
  show ?case
    unfolding step using Suc.IH [OF c1(1,2)]
    by (simp add: c1 replicate_append_same)
qed

lemma connect_loop_streak_client:
  assumes "StratumClient.started c" and "\<not> StratumClient.connectWarned c" and "0 < N"
  shows "StratumClient.log (connect_loop (replicate N False @ [True]) c) =
           StratumClient.log c @ [Log Warn ''Failed to connect to pool, retrying...'' [],
                                  Log Info ''Successfully connected to pool'' [],
                                  Log Info ''Listening to pool for new work'' []]
         \<and> StratumClient.timeouts (connect_loop (replicate N False @ [True]) c) =
             StratumClient.timeouts c @ replicate N 5000
         \<and> socket_connect_calls (connect_loop (replicate N False @ [True]) c) =
             socket_connect_calls c + N
         \<and> StratumClient.started (connect_loop (replicate N False @ [True]) c)
         \<and> \<not> StratumClient.connectWarned (connect_loop (replicate N False @ [True]) c)
         \<and> connected (connect_loop (replicate N False @ [True]) c)"
proof -
  obtain n where N: "N = Suc n" using assms(3) by (cases N) simp_all
  let ?c1 = "timeout_fired (startConnecting_resumed False c)"
  have c1: "StratumClient.started ?c1" "StratumClient.connectWarned ?c1"
    "StratumClient.log ?c1 = StratumClient.log c @ [Log Warn ''Failed to connect to pool, retrying...'' []]"
    "StratumClient.timeouts ?c1 = StratumClient.timeouts c @ [5000]"
    "socket_connect_calls ?c1 = socket_connect_calls c + 1"
    using assms(1,2)
    by (simp_all add: startConnecting_resumed_def timeout_fired_def connectSocket_def
          client_log_def Let_def)
  have step: "connect_loop (replicate N False @ [True]) c =
                connect_loop (replicate n False @ [True]) ?c1"
    using assms(1,2) by (simp add: N startConnecting_resumed_def client_log_def Let_def)
  show ?thesis
    unfolding step using connect_loop_warned [OF c1(1,2), of n]
    by (simp add: c1 N replicate_append_same)
qed

lemma rpc_connect_loop_warned:
  assumes "MiningPool.started p" and "MiningPool.connectWarned p"
  shows "MiningPool.log (rpc_connect_loop (replicate n False @ [True]) p) =
           MiningPool.log p @ [Log Info ''Successfully connected to node'' [],
                               Log Info ''Listening to node for new blocks'' []]
         \<and> MiningPool.timeouts (rpc_connect_loop (replicate n False @ [True]) p) =
             MiningPool.timeouts p @ replicate n 5000
         \<and> tryConnect_calls (rpc_connect_loop (replicate n False @ [True]) p) =
             tryConnect_calls p + n
         \<and> processNewBlocks_calls (rpc_connect_loop (replicate n False @ [True]) p) =
             processNewBlocks_calls p + 1
         \<and> MiningPool.started (rpc_connect_loop (replicate n False @ [True]) p)
         \<and> \<not> MiningPool.connectWarned (rpc_connect_loop (replicate n False @ [True]) p)"
  using assms
proof (induction n arbitrary: p)
  case 0
  then show ?case
    by (simp add: startConnectingRpc_resumed_def pool_log_def Let_def)
next
  case (Suc n)
  let ?p1 = "tryConnect (startConnectingRpc_resumed False p)"
  have p1: "MiningPool.started ?p1" "MiningPool.connectWarned ?p1"
    "MiningPool.log ?p1 = MiningPool.log p"
    "MiningPool.timeouts ?p1 = MiningPool.timeouts p @ [5000]"
    "tryConnect_calls ?p1 = tryConnect_calls p + 1"
    "processNewBlocks_calls ?p1 = processNewBlocks_calls p"
    using Suc.prems
    by (simp_all add: startConnectingRpc_resumed_def tryConnect_def Let_def)
  have step: "rpc_connect_loop (replicate (Suc n) False @ [True]) p =
                rpc_connect_loop (replicate n False @ [True]) ?p1"
    using Suc.prems by (simp add: startConnectingRpc_resumed_def Let_def)
  show ?case
    unfolding step using Suc.IH [OF p1(1,2)]
    by (simp add: p1 replicate_append_same)
qed

lemma connect_loop_streak_pool:
  assumes "MiningPool.started p" and "\<not> MiningPool.connectWarned p" and "0 < N"
  shows "MiningPool.log (rpc_connect_loop (replicate N False @ [True]) p) =
           MiningPool.log p @ [Log Warn ''Failed to connect to node, retrying...'' [],
                               Log Info ''Successfully connected to node'' [],
                               Log Info ''Listening to node for new blocks'' []]
         \<and> MiningPool.timeouts (rpc_connect_loop (replicate N False @ [True]) p) =
             MiningPool.timeouts p @ replicate N 5000
         \<and> tryConnect_calls (rpc_connect_loop (replicate N False @ [True]) p) =
             tryConnect_calls p + N
         \<and> processNewBlocks_calls (rpc_connect_loop (replicate N False @ [True]) p) =
             processNewBlocks_calls p + 1
         \<and> MiningPool.started (rpc_connect_loop (replicate N False @ [True]) p)
         \<and> \<not> MiningPool.connectWarned (rpc_connect_loop (replicate N False @ [True]) p)"
proof -
  obtain n where N: "N = Suc n" using assms(3) by (cases N) simp_all
  let ?p1 = "tryConnect (startConnectingRpc_resumed False p)"
  have p1: "MiningPool.started ?p1" "MiningPool.connectWarned ?p1"
    "MiningPool.log ?p1 = MiningPool.log p @ [Log Warn ''Failed to connect to node, retrying...'' []]"
    "MiningPool.timeouts ?p1 = MiningPool.timeouts p @ [5000]"
    "tryConnect_calls ?p1 = tryConnect_calls p + 1"
    "processNewBlocks_calls ?p1 = processNewBlocks_calls p"
    using assms(1,2)
    by (simp_all add: startConnectingRpc_resumed_def tryConnect_def pool_log_def Let_def)
  have step: "rpc_connect_loop (replicate N False @ [True]) p =
                rpc_connect_loop (replicate n False @ [True]) ?p1"
    using assms(1,2) by (simp add: N startConnectingRpc_resumed_def pool_log_def Let_def)
  show ?thesis
    unfolding step using rpc_connect_loop_warned [OF p1(1,2), of n]
    by (simp add: p1 N replicate_append_same)
qed

text \<open>The loop during the failures: the warning comes with the first of them.\<close>

lemma connect_loop_failures_warned:
  assumes "StratumClient.started c" and "StratumClient.connectWarned c"
  shows "StratumClient.log (connect_loop (replicate n False) c) = StratumClient.log c
         \<and> StratumClient.timeouts (connect_loop (replicate n False) c) =
             StratumClient.timeouts c @ replicate n 5000
         \<and> StratumClient.connectWarned (connect_loop (replicate n False) c)"
  using assms
proof (induction n arbitrary: c)
  case 0
  then show ?case by simp
next
  case (Suc n)
  let ?c1 = "timeout_fired (startConnecting_resumed False c)"
  have c1: "StratumClient.started ?c1" "StratumClient.connectWarned ?c1"
    "StratumClient.log ?c1 = StratumClient.log c"
    "StratumClient.timeouts ?c1 = StratumClient.timeouts c @ [5000]"
    using Suc.prems
    by (simp_all add: startConnecting_resumed_def timeout_fired_def connectSocket_def Let_def)
  have step: "connect_loop (replicate (Suc n) False) c = connect_loop (replicate n False) ?c1"
    using Suc.prems by (simp add: startConnecting_resumed_def Let_def)
  show ?case
    unfolding step using Suc.IH [OF c1(1,2)]
    by (simp add: c1 replicate_append_same)
qed

lemma connect_loop_failures:
  assumes "StratumClient.started c" and "\<not> StratumClient.connectWarned c" and "0 < k"
  shows "StratumClient.log (connect_loop (replicate k False) c) =
           StratumClient.log c @ [Log Warn ''Failed to connect to pool, retrying...'' []]
         \<and> StratumClient.timeouts (connect_loop (replicate k False) c) =
             StratumClient.timeouts c @ replicate k 5000
         \<and> StratumClient.connectWarned (connect_loop (replicate k False) c)"
proof -
  obtain n where k: "k = Suc n" using assms(3) by (cases k) simp_all
  let ?c1 = "timeout_fired (startConnecting_resumed False c)"
  have c1: "StratumClient.started ?c1" "StratumClient.connectWarned ?c1"
    "StratumClient.log ?c1 =
       StratumClient.log c @ [Log Warn ''Failed to connect to pool, retrying...'' []]"
    "StratumClient.timeouts ?c1 = StratumClient.timeouts c @ [5000]"
    using assms(1,2)
    by (simp_all add: startConnecting_resumed_def timeout_fired_def connectSocket_def
          client_log_def Let_def)
  have step: "connect_loop (replicate k False) c = connect_loop (replicate n False) ?c1"
    using assms(1,2) by (simp add: k startConnecting_resumed_def client_log_def Let_def)
  show ?thesis
    unfolding step using connect_loop_failures_warned [OF c1(1,2), of n]
    by (simp add: c1 k replicate_append_same)
qed

lemma rpc_connect_loop_failures_warned:
  assumes "MiningPool.started p" and "MiningPool.connectWarned p"
  shows "MiningPool.log (rpc_connect_loop (replicate n False) p) = MiningPool.log p
         \<and> MiningPool.timeouts (rpc_connect_loop (replicate n False) p) =
             MiningPool.timeouts p @ replicate n 5000
         \<and> MiningPool.connectWarned (rpc_connect_loop (replicate n False) p)"
  using assms
proof (induction n arbitrary: p)
  case 0
  then show ?case by simp
next
  case (Suc n)
  let ?p1 = "tryConnect (startConnectingRpc_resumed False p)"
  have p1: "MiningPool.started ?p1" "MiningPool.connectWarned ?p1"
    "MiningPool.log ?p1 = MiningPool.log p"
    "MiningPool.timeouts ?p1 = MiningPool.timeouts p @ [5000]"
    using Suc.prems
    by (simp_all add: startConnectingRpc_resumed_def tryConnect_def Let_def)
  have step: "rpc_connect_loop (replicate (Suc n) False) p =
                rpc_connect_loop (replicate n False) ?p1"
    using Suc.prems by (simp add: startConnectingRpc_resumed_def Let_def)
  show ?case
    unfolding step using Suc.IH [OF p1(1,2)]
    by (simp add: p1 replicate_append_same)
qed

lemma rpc_connect_loop_failures:
  assumes "MiningPool.started p" and "\<not> MiningPool.connectWarned p" and "0 < k"
  shows "MiningPool.log (rpc_connect_loop (replicate k False) p) =
           MiningPool.log p @ [Log Warn ''Failed to connect to node, retrying...'' []]
         \<and> MiningPool.timeouts (rpc_connect_loop (replicate k False) p) =
             MiningPool.timeouts p @ replicate k 5000
         \<and> MiningPool.connectWarned (rpc_connect_loop (replicate k False) p)"
proof -
  obtain n where k: "k = Suc n" using assms(3) by (cases k) simp_all
  let ?p1 = "tryConnect (startConnectingRpc_resumed False p)"
  have p1: "MiningPool.started ?p1" "MiningPool.connectWarned ?p1"
    "MiningPool.log ?p1 =
       MiningPool.log p @ [Log Warn ''Failed to connect to node, retrying...'' []]"
    "MiningPool.timeouts ?p1 = MiningPool.timeouts p @ [5000]"
    using assms(1,2)
    by (simp_all add: startConnectingRpc_resumed_def tryConnect_def pool_log_def Let_def)
  have step: "rpc_connect_loop (replicate k False) p = rpc_connect_loop (replicate n False) ?p1"
    using assms(1,2) by (simp add: k startConnectingRpc_resumed_def pool_log_def Let_def)
  show ?thesis
    unfolding step using rpc_connect_loop_failures_warned [OF p1(1,2), of n]
    by (simp add: p1 k replicate_append_same)
qed

text \<open>
  C9. A connect loop that is running (\<open>started\<close>) and has not warned yet, with an attempt
  in flight, sees \<open>N \<ge> 1\<close> failures and then a success. The warning is logged at the
  first failure and not again: after any number \<open>k \<ge> 1\<close> of failures the log is what
  it was plus the one warning, \<open>k\<close> timers of 5000 ms have been armed and the warned
  flag is set. At the end exactly one warning has been logged,
  followed by the lines of the one successful connection; \<open>N\<close> timers are armed, each
  with a delay of 5000 ms, and each starts one further attempt; at the end the loop
  is connected (the session's \<open>connected\<close> flag is set; the pool has started
  \<open>processNewBlocks\<close> once) and the warned flag is cleared, so that a later streak,
  of \<open>M \<ge> 1\<close> failures after the connection was lost, warns again, once. This holds for
  the worker session's loop and for the pool's loop to the node.
\<close>

theorem connect_loop_streak:
  assumes "0 < N" and "0 < M" and "0 < k"
  shows "(StratumClient.started c \<and> \<not> StratumClient.connectWarned c \<longrightarrow>
            StratumClient.log (connect_loop (replicate k False) c) =
              StratumClient.log c @ [Log Warn ''Failed to connect to pool, retrying...'' []]
            \<and> StratumClient.timeouts (connect_loop (replicate k False) c) =
                StratumClient.timeouts c @ replicate k 5000
            \<and> StratumClient.connectWarned (connect_loop (replicate k False) c)
            \<and> StratumClient.log (connect_loop (replicate N False @ [True]) c) =
              StratumClient.log c @ [Log Warn ''Failed to connect to pool, retrying...'' [],
                                     Log Info ''Successfully connected to pool'' [],
                                     Log Info ''Listening to pool for new work'' []]
            \<and> StratumClient.timeouts (connect_loop (replicate N False @ [True]) c) =
                StratumClient.timeouts c @ replicate N 5000
            \<and> socket_connect_calls (connect_loop (replicate N False @ [True]) c) =
                socket_connect_calls c + N
            \<and> StratumClient.started (connect_loop (replicate N False @ [True]) c)
            \<and> \<not> StratumClient.connectWarned (connect_loop (replicate N False @ [True]) c)
            \<and> connected (connect_loop (replicate N False @ [True]) c)
            \<and> StratumClient.log (connect_loop (replicate M False @ [True])
                   (onDisconnect (connect_loop (replicate N False @ [True]) c))) =
                StratumClient.log (connect_loop (replicate N False @ [True]) c) @
                  [Log Info ''Disconnected from pool unexpectedly. Reconnecting.'' [],
                   Log Warn ''Failed to connect to pool, retrying...'' [],
                   Log Info ''Successfully connected to pool'' [],
                   Log Info ''Listening to pool for new work'' []])
         \<and> (MiningPool.started p \<and> \<not> MiningPool.connectWarned p \<longrightarrow>
            MiningPool.log (rpc_connect_loop (replicate k False) p) =
              MiningPool.log p @ [Log Warn ''Failed to connect to node, retrying...'' []]
            \<and> MiningPool.timeouts (rpc_connect_loop (replicate k False) p) =
                MiningPool.timeouts p @ replicate k 5000
            \<and> MiningPool.connectWarned (rpc_connect_loop (replicate k False) p)
            \<and> MiningPool.log (rpc_connect_loop (replicate N False @ [True]) p) =
              MiningPool.log p @ [Log Warn ''Failed to connect to node, retrying...'' [],
                                  Log Info ''Successfully connected to node'' [],
                                  Log Info ''Listening to node for new blocks'' []]
            \<and> MiningPool.timeouts (rpc_connect_loop (replicate N False @ [True]) p) =
                MiningPool.timeouts p @ replicate N 5000
            \<and> tryConnect_calls (rpc_connect_loop (replicate N False @ [True]) p) =
                tryConnect_calls p + N
            \<and> processNewBlocks_calls (rpc_connect_loop (replicate N False @ [True]) p) =
                processNewBlocks_calls p + 1
            \<and> MiningPool.started (rpc_connect_loop (replicate N False @ [True]) p)
            \<and> \<not> MiningPool.connectWarned (rpc_connect_loop (replicate N False @ [True]) p)
            \<and> MiningPool.log (rpc_connect_loop (replicate M False @ [True])
                   (onDisconnectRpc (rpc_connect_loop (replicate N False @ [True]) p))) =
                MiningPool.log (rpc_connect_loop (replicate N False @ [True]) p) @
                  [Log Info ''Disconnected from node unexpectedly. Reconnecting.'' [],
                   Log Warn ''Failed to connect to node, retrying...'' [],
                   Log Info ''Successfully connected to node'' [],
                   Log Info ''Listening to node for new blocks'' []])"
proof (intro conjI impI)
  assume h: "StratumClient.started c \<and> \<not> StratumClient.connectWarned c"
  let ?c = "connect_loop (replicate N False @ [True]) c"
  have first: "StratumClient.log ?c =
           StratumClient.log c @ [Log Warn ''Failed to connect to pool, retrying...'' [],
                                  Log Info ''Successfully connected to pool'' [],
                                  Log Info ''Listening to pool for new work'' []]
         \<and> StratumClient.timeouts ?c = StratumClient.timeouts c @ replicate N 5000
         \<and> socket_connect_calls ?c = socket_connect_calls c + N
         \<and> StratumClient.started ?c
         \<and> \<not> StratumClient.connectWarned ?c
         \<and> connected ?c"
    using connect_loop_streak_client [of c N] h assms(1) by blast
  have d: "StratumClient.started (onDisconnect ?c)" "\<not> StratumClient.connectWarned (onDisconnect ?c)"
    "StratumClient.log (onDisconnect ?c) =
       StratumClient.log ?c @ [Log Info ''Disconnected from pool unexpectedly. Reconnecting.'' []]"
    using first by (simp_all add: onDisconnect_def connectSocket_def client_log_def miner_def Let_def)
  have second: "StratumClient.log (connect_loop (replicate M False @ [True]) (onDisconnect ?c)) =
                StratumClient.log ?c @
                  [Log Info ''Disconnected from pool unexpectedly. Reconnecting.'' [],
                   Log Warn ''Failed to connect to pool, retrying...'' [],
                   Log Info ''Successfully connected to pool'' [],
                   Log Info ''Listening to pool for new work'' []]"
    using connect_loop_streak_client [OF d(1,2) assms(2)] by (simp add: d(3))
  show "StratumClient.log (connect_loop (replicate k False) c) =
              StratumClient.log c @ [Log Warn ''Failed to connect to pool, retrying...'' []]"
    and "StratumClient.timeouts (connect_loop (replicate k False) c) =
                StratumClient.timeouts c @ replicate k 5000"
    and "StratumClient.connectWarned (connect_loop (replicate k False) c)"
    using connect_loop_failures [of c k] h assms(3) by blast+
  show "StratumClient.log ?c =
           StratumClient.log c @ [Log Warn ''Failed to connect to pool, retrying...'' [],
                                  Log Info ''Successfully connected to pool'' [],
                                  Log Info ''Listening to pool for new work'' []]"
    and "StratumClient.timeouts ?c = StratumClient.timeouts c @ replicate N 5000"
    and "socket_connect_calls ?c = socket_connect_calls c + N"
    and "StratumClient.started ?c"
    and "\<not> StratumClient.connectWarned ?c"
    and "connected ?c"
    using first by blast+
  show "StratumClient.log (connect_loop (replicate M False @ [True]) (onDisconnect ?c)) =
                StratumClient.log ?c @
                  [Log Info ''Disconnected from pool unexpectedly. Reconnecting.'' [],
                   Log Warn ''Failed to connect to pool, retrying...'' [],
                   Log Info ''Successfully connected to pool'' [],
                   Log Info ''Listening to pool for new work'' []]"
    by (rule second)
next
  assume h: "MiningPool.started p \<and> \<not> MiningPool.connectWarned p"
  let ?p = "rpc_connect_loop (replicate N False @ [True]) p"
  have first: "MiningPool.log ?p =
           MiningPool.log p @ [Log Warn ''Failed to connect to node, retrying...'' [],
                               Log Info ''Successfully connected to node'' [],
                               Log Info ''Listening to node for new blocks'' []]
         \<and> MiningPool.timeouts ?p = MiningPool.timeouts p @ replicate N 5000
         \<and> tryConnect_calls ?p = tryConnect_calls p + N
         \<and> processNewBlocks_calls ?p = processNewBlocks_calls p + 1
         \<and> MiningPool.started ?p
         \<and> \<not> MiningPool.connectWarned ?p"
    using connect_loop_streak_pool [of p N] h assms(1) by blast
  have d: "MiningPool.started (onDisconnectRpc ?p)" "\<not> MiningPool.connectWarned (onDisconnectRpc ?p)"
    "MiningPool.log (onDisconnectRpc ?p) =
       MiningPool.log ?p @ [Log Info ''Disconnected from node unexpectedly. Reconnecting.'' []]"
    using first by (simp_all add: onDisconnectRpc_def tryConnect_def pool_log_def Let_def)
  have second: "MiningPool.log (rpc_connect_loop (replicate M False @ [True]) (onDisconnectRpc ?p)) =
                MiningPool.log ?p @
                  [Log Info ''Disconnected from node unexpectedly. Reconnecting.'' [],
                   Log Warn ''Failed to connect to node, retrying...'' [],
                   Log Info ''Successfully connected to node'' [],
                   Log Info ''Listening to node for new blocks'' []]"
    using connect_loop_streak_pool [OF d(1,2) assms(2)] by (simp add: d(3))
  show "MiningPool.log (rpc_connect_loop (replicate k False) p) =
              MiningPool.log p @ [Log Warn ''Failed to connect to node, retrying...'' []]"
    and "MiningPool.timeouts (rpc_connect_loop (replicate k False) p) =
                MiningPool.timeouts p @ replicate k 5000"
    and "MiningPool.connectWarned (rpc_connect_loop (replicate k False) p)"
    using rpc_connect_loop_failures [of p k] h assms(3) by blast+
  show "MiningPool.log ?p =
           MiningPool.log p @ [Log Warn ''Failed to connect to node, retrying...'' [],
                               Log Info ''Successfully connected to node'' [],
                               Log Info ''Listening to node for new blocks'' []]"
    and "MiningPool.timeouts ?p = MiningPool.timeouts p @ replicate N 5000"
    and "tryConnect_calls ?p = tryConnect_calls p + N"
    and "processNewBlocks_calls ?p = processNewBlocks_calls p + 1"
    and "MiningPool.started ?p"
    and "\<not> MiningPool.connectWarned ?p"
    using first by blast+
  show "MiningPool.log (rpc_connect_loop (replicate M False @ [True]) (onDisconnectRpc ?p)) =
                MiningPool.log ?p @
                  [Log Info ''Disconnected from node unexpectedly. Reconnecting.'' [],
                   Log Warn ''Failed to connect to node, retrying...'' [],
                   Log Info ''Successfully connected to node'' [],
                   Log Info ''Listening to node for new blocks'' []]"
    by (rule second)
qed

lemma start_simps:
  "StratumClient.started (start (StratumClient_new g))"
  "\<not> StratumClient.connectWarned (start (StratumClient_new g))"
  "StratumClient.log (start (StratumClient_new g)) = [Log Info ''Connecting to pool...'' []]"
  "StratumClient.timeouts (start (StratumClient_new g)) = []"
  "socket_connect_calls (start (StratumClient_new g)) = 1"
  by (simp_all add: start_def StratumClient_new_def connectSocket_def client_log_def)

lemma pool_start_simps:
  "MiningPool.started (pool_start (MiningPool_new h0))"
  "\<not> MiningPool.connectWarned (pool_start (MiningPool_new h0))"
  "MiningPool.log (pool_start (MiningPool_new h0)) =
     [Log Info ''Starting stratum server...'' [], Log Info ''Connecting to node...'' []]"
  "MiningPool.timeouts (pool_start (MiningPool_new h0)) = []"
  "tryConnect_calls (pool_start (MiningPool_new h0)) = 1"
  "processNewBlocks_calls (pool_start (MiningPool_new h0)) = 0"
  by (simp_all add: pool_start_def MiningPool_new_def tryConnect_def pool_log_def Let_def)

text \<open>
  Two failures and a success, from \<open>start()\<close> on a new session and a new pool; then
  the connection is lost and the same happens again.
\<close>

theorem connect_loop_streak_witness:
  "(0::nat) < 2
   \<and> StratumClient.started (start (StratumClient_new [0xAB]))
   \<and> \<not> StratumClient.connectWarned (start (StratumClient_new [0xAB]))
   \<and> StratumClient.log (connect_loop (replicate 2 False) (start (StratumClient_new [0xAB]))) =
        [Log Info ''Connecting to pool...'' [],
         Log Warn ''Failed to connect to pool, retrying...'' []]
   \<and> MiningPool.log (rpc_connect_loop (replicate 2 False)
                        (pool_start (MiningPool_new (\<lambda>r. example_template)))) =
        [Log Info ''Starting stratum server...'' [], Log Info ''Connecting to node...'' [],
         Log Warn ''Failed to connect to node, retrying...'' []]
   \<and> StratumClient.log (connect_loop (replicate 2 False @ [True]) (start (StratumClient_new [0xAB]))) =
        [Log Info ''Connecting to pool...'' [],
         Log Warn ''Failed to connect to pool, retrying...'' [],
         Log Info ''Successfully connected to pool'' [],
         Log Info ''Listening to pool for new work'' []]
   \<and> StratumClient.timeouts (connect_loop (replicate 2 False @ [True]) (start (StratumClient_new [0xAB])))
        = [5000, 5000]
   \<and> socket_connect_calls (connect_loop (replicate 2 False @ [True]) (start (StratumClient_new [0xAB])))
        = 3
   \<and> StratumClient.log (connect_loop (replicate 2 False @ [True])
         (onDisconnect (connect_loop (replicate 2 False @ [True]) (start (StratumClient_new [0xAB]))))) =
        [Log Info ''Connecting to pool...'' [],
         Log Warn ''Failed to connect to pool, retrying...'' [],
         Log Info ''Successfully connected to pool'' [],
         Log Info ''Listening to pool for new work'' [],
         Log Info ''Disconnected from pool unexpectedly. Reconnecting.'' [],
         Log Warn ''Failed to connect to pool, retrying...'' [],
         Log Info ''Successfully connected to pool'' [],
         Log Info ''Listening to pool for new work'' []]
   \<and> MiningPool.started (pool_start (MiningPool_new (\<lambda>r. example_template)))
   \<and> \<not> MiningPool.connectWarned (pool_start (MiningPool_new (\<lambda>r. example_template)))
   \<and> MiningPool.log (rpc_connect_loop (replicate 2 False @ [True])
                        (pool_start (MiningPool_new (\<lambda>r. example_template)))) =
        [Log Info ''Starting stratum server...'' [], Log Info ''Connecting to node...'' [],
         Log Warn ''Failed to connect to node, retrying...'' [],
         Log Info ''Successfully connected to node'' [],
         Log Info ''Listening to node for new blocks'' []]
   \<and> MiningPool.timeouts (rpc_connect_loop (replicate 2 False @ [True])
                             (pool_start (MiningPool_new (\<lambda>r. example_template)))) = [5000, 5000]
   \<and> processNewBlocks_calls (rpc_connect_loop (replicate 2 False @ [True])
                             (pool_start (MiningPool_new (\<lambda>r. example_template)))) = 1
   \<and> MiningPool.log (rpc_connect_loop (replicate 2 False @ [True])
         (onDisconnectRpc (rpc_connect_loop (replicate 2 False @ [True])
                        (pool_start (MiningPool_new (\<lambda>r. example_template)))))) =
        [Log Info ''Starting stratum server...'' [], Log Info ''Connecting to node...'' [],
         Log Warn ''Failed to connect to node, retrying...'' [],
         Log Info ''Successfully connected to node'' [],
         Log Info ''Listening to node for new blocks'' [],
         Log Info ''Disconnected from node unexpectedly. Reconnecting.'' [],
         Log Warn ''Failed to connect to node, retrying...'' [],
         Log Info ''Successfully connected to node'' [],
         Log Info ''Listening to node for new blocks'' []]"
proof -
  have r: "replicate 2 (5000::nat) = [5000, 5000]"
    by (simp add: numeral_2_eq_2)
  show ?thesis
    using connect_loop_streak [of 2 2 2 "start (StratumClient_new [0xAB])"
            "pool_start (MiningPool_new (\<lambda>r. example_template))"]
    by (simp add: start_simps pool_start_simps r)
qed

subsection \<open>Stopping the worker session\<close>

text \<open>
  C6. \<open>stop()\<close> only ends the socket: it neither clears \<open>started\<close>, which
  \<open>startConnecting\<close> checks when it resumes, nor the pending timer. A new session is
  started and its first attempt fails, which arms the timer; \<open>stop()\<close> is called (one
  \<open>socket.connect\<close> so far); the timer fires and a second \<open>socket.connect\<close> is issued,
  and when that attempt succeeds the session is connected. Likewise, when \<open>stop()\<close> is
  called while the first attempt is in flight and the attempt then fails, the
  resumed \<open>startConnecting\<close> is not a no-op: it arms the timer.
\<close>

theorem stop_does_not_stop_reconnecting:
  "socket_connect_calls (stop (startConnecting_resumed False (start (StratumClient_new [0xAB])))) = 1
   \<and> StratumClient.timeouts (stop (startConnecting_resumed False (start (StratumClient_new [0xAB]))))
       = [5000]
   \<and> socket_connect_calls
       (timeout_fired (stop (startConnecting_resumed False (start (StratumClient_new [0xAB]))))) = 2
   \<and> connected
       (startConnecting_resumed True
          (timeout_fired (stop (startConnecting_resumed False (start (StratumClient_new [0xAB]))))))
   \<and> startConnecting_resumed False (stop (start (StratumClient_new [0xAB])))
       \<noteq> stop (start (StratumClient_new [0xAB]))
   \<and> StratumClient.timeouts (startConnecting_resumed False (stop (start (StratumClient_new [0xAB]))))
       = [5000]"
  by (simp add: stop_def startConnecting_resumed_def start_def StratumClient_new_def
        connectSocket_def timeout_fired_def client_log_def onConnect_def subscribe_def send_def
        Let_def)


section \<open>Properties of the worker session\<close>

lemma client_log_simps:
  "requestsSent (client_log l msg c) = requestsSent c"
  "connected (client_log l msg c) = connected c"
  "socket_end_calls (client_log l msg c) = socket_end_calls c"
  "miner_calls (client_log l msg c) = miner_calls c"
  "StratumClient.log (client_log l msg c) = StratumClient.log c @ [Log l msg []]"
  by (simp_all add: client_log_def)






subsection \<open>The map of requests sent\<close>


lemma example_client_simps:
  "requestsSent example_client = [0 \<mapsto> ''mining.subscribe'']"
  "connected example_client"
  "StratumClient.started example_client"
  "StratumClient.graffiti example_client = [0xAB]"
  "miner_calls example_client = []"
  "socket_end_calls example_client = 0"
  "nextMessageId example_client = 1"
  "StratumClient.log example_client =
     [Log Info ''Connecting to pool...'' [], Log Info ''Successfully connected to pool'' [],
      Log Info ''Listening to pool for new work'' []]"
  by (simp_all add: example_client_def startConnecting_resumed_def start_def StratumClient_new_def
        connectSocket_def onConnect_def subscribe_def send_def client_log_def Let_def)


lemma example_parse_simps:
  \<open>example_parse (ascii ''{"method":"mining.wait_for_work"}'') =
     Some (JObject [(ascii ''method'', JString (ascii ''mining.wait_for_work''))])\<close>
  \<open>example_parse (ascii ''{"method":"mining.unknown"}'') =
     Some (JObject [(ascii ''method'', JString (ascii ''mining.unknown''))])\<close>
  \<open>example_parse (ascii ''{"method":"mining.set_target"}'') =
     Some (JObject [(ascii ''method'', JString (ascii ''mining.set_target''))])\<close>
  \<open>example_parse (ascii ''{"id":0,"result":"cd"}'') =
     Some (JObject [(ascii ''id'', JNumber 0), (ascii ''result'', JString (ascii ''cd''))])\<close>
  \<open>example_parse (ascii ''{"id":7,"result":"cd"}'') =
     Some (JObject [(ascii ''id'', JNumber 7), (ascii ''result'', JString (ascii ''cd''))])\<close>
  \<open>example_parse (ascii ''{}'') = Some (JObject [])\<close>
  \<open>example_parse (ascii ''null'') = Some JNull\<close>
  \<open>example_parse (ascii ''x'') = None\<close>
  by (simp_all add: example_parse_def ascii_def)

text \<open>The members that \<open>onData\<close> reads of the example messages.\<close>

lemma example_props:
  \<open>js_prop (JObject [(ascii ''method'', JString (ascii ''mining.wait_for_work''))]) (ascii ''method'')
     = Some (JString (ascii ''mining.wait_for_work''))\<close>
  \<open>js_prop (JObject [(ascii ''method'', JString (ascii ''mining.unknown''))]) (ascii ''method'')
     = Some (JString (ascii ''mining.unknown''))\<close>
  \<open>js_prop (JObject [(ascii ''method'', JString (ascii ''mining.set_target''))]) (ascii ''method'')
     = Some (JString (ascii ''mining.set_target''))\<close>
  \<open>js_prop (JObject [(ascii ''method'', JString (ascii ''mining.set_target''))]) (ascii ''params'')
     = None\<close>
  \<open>js_prop (JObject [(ascii ''id'', JNumber n), (ascii ''result'', JString (ascii ''cd''))])
     (ascii ''method'') = None\<close>
  \<open>js_prop (JObject [(ascii ''id'', JNumber n), (ascii ''result'', JString (ascii ''cd''))])
     (ascii ''id'') = Some (JNumber n)\<close>
  \<open>js_prop (JObject [(ascii ''id'', JNumber n), (ascii ''result'', JString (ascii ''cd''))])
     (ascii ''result'') = Some (JString (ascii ''cd''))\<close>
  \<open>js_prop (JObject []) k = None\<close>
  by (simp_all add: js_prop_def ascii_def)

lemma example_strings_differ:
  \<open>ascii ''mining.wait_for_work'' \<noteq> ascii ''mining.set_target''\<close>
  \<open>ascii ''mining.wait_for_work'' \<noteq> ascii ''mining.notify''\<close>
  \<open>ascii ''mining.unknown'' \<noteq> ascii ''mining.set_target''\<close>
  \<open>ascii ''mining.unknown'' \<noteq> ascii ''mining.notify''\<close>
  \<open>ascii ''mining.unknown'' \<noteq> ascii ''mining.wait_for_work''\<close>
  by (simp_all add: ascii_def)

lemma requestsSent_get_example:
  "requestsSent_get (requestsSent example_client) (JNumber 0) = Some ''mining.subscribe''"
  "requestsSent_get (requestsSent example_client) (JNumber 7) = None"
  by (simp_all add: requestsSent_get_def example_client_simps)



subsection \<open>Messages that are not understood\<close>

text \<open>
  C8, as the code has it, for a line of a chunk and the lines after it. A message
  with an unrecognized method, and a parsed value other than \<open>null\<close> with neither
  method nor id, is logged, changes nothing else (the connection stays as it is) and
  the lines after it are processed as they would be without it. A response whose id
  is not in \<open>requestsSent\<close> is logged and changes nothing else, in whatever chunk
  it comes. A line that \<open>JSON.parse\<close> rejects, and the line \<open>null\<close>, is not handled:
  \<open>onData\<close> throws there (a \<open>SyntaxError\<close>, a \<open>TypeError\<close>), nothing is logged and the lines
  after it are not processed.
\<close>

theorem onData_discards:
  "onData JSON_parse Buffer_from_object data c =
     onData_loop JSON_parse Buffer_from_object (js_split 0xA (js_trim (Buffer_toString data))) c
   \<and> (JSON_parse l = Some payload \<and> payload \<noteq> JNull
        \<and> js_prop payload (ascii ''method'') = Some m \<and> m \<noteq> JNull
        \<and> m \<noteq> JString (ascii ''mining.set_target'') \<and> m \<noteq> JString (ascii ''mining.notify'')
        \<and> m \<noteq> JString (ascii ''mining.wait_for_work'')
      \<longrightarrow> onData_loop JSON_parse Buffer_from_object (l # ls) c =
            onData_loop JSON_parse Buffer_from_object ls
              (client_log Info ''unrecognized method'' c))
   \<and> (JSON_parse l = Some payload \<and> payload \<noteq> JNull
        \<and> \<not> not_nullish (js_prop payload (ascii ''method''))
        \<and> \<not> not_nullish (js_prop payload (ascii ''id''))
      \<longrightarrow> onData_loop JSON_parse Buffer_from_object (l # ls) c =
            onData_loop JSON_parse Buffer_from_object ls
              (client_log Info ''unrecognized message received'' c))
   \<and> (JSON_parse l = Some payload \<and> payload \<noteq> JNull
        \<and> \<not> not_nullish (js_prop payload (ascii ''method''))
        \<and> js_prop payload (ascii ''id'') = Some i \<and> i \<noteq> JNull
        \<and> requestsSent_get (requestsSent c) i = None
      \<longrightarrow> onData_loop JSON_parse Buffer_from_object (l # ls) c =
            (None, client_log Info ''unrecognized response received'' c))
   \<and> (JSON_parse l = None
      \<longrightarrow> onData_loop JSON_parse Buffer_from_object (l # ls) c = (Some SyntaxError, c))
   \<and> (JSON_parse l = Some JNull
      \<longrightarrow> onData_loop JSON_parse Buffer_from_object (l # ls) c = (Some TypeError, c))
   \<and> connected (client_log Info msg c) = connected c
   \<and> socket_end_calls (client_log Info msg c) = socket_end_calls c"
  by (auto simp: onData_loop.simps(2) client_log_simps onData_def not_nullish_def
        split: option.splits)


lemma lines_bad_wait:
  \<open>js_split 0xA (js_trim (Buffer_toString
      (ascii_bytes ''x\<newline>{"method":"mining.wait_for_work"}\<newline>'')))
     = [ascii ''x'', ascii ''{"method":"mining.wait_for_work"}'']\<close>
  by (simp add: ascii_bytes_def ascii_def Buffer_toString_def utf16_units_def js_trim_def
        js_whitespace_def)

lemma lines_null_wait:
  \<open>js_split 0xA (js_trim (Buffer_toString
      (ascii_bytes ''null\<newline>{"method":"mining.wait_for_work"}\<newline>'')))
     = [ascii ''null'', ascii ''{"method":"mining.wait_for_work"}'']\<close>
  by (simp add: ascii_bytes_def ascii_def Buffer_toString_def utf16_units_def js_trim_def
        js_whitespace_def)

lemma lines_wait:
  \<open>js_split 0xA (js_trim (Buffer_toString
      (ascii_bytes ''{"method":"mining.wait_for_work"}\<newline>'')))
     = [ascii ''{"method":"mining.wait_for_work"}'']\<close>
  by (simp add: ascii_bytes_def ascii_def Buffer_toString_def utf16_units_def js_trim_def
        js_whitespace_def)

lemma onData_loop_wait:
  \<open>onData_loop example_parse example_Buffer_from_object
      [ascii ''{"method":"mining.wait_for_work"}''] c
     = (None, miner waitForWork (client_log Info ''wait_for_work received'' c))\<close>
  by (simp add: onData_loop.simps(2) example_parse_simps example_props not_nullish_def
        example_strings_differ)

lemma onData_loop_throws:
  "JSON_parse l = None \<Longrightarrow>
     onData_loop JSON_parse Buffer_from_object (l # ls) c = (Some SyntaxError, c)"
  "JSON_parse l = Some JNull \<Longrightarrow>
     onData_loop JSON_parse Buffer_from_object (l # ls) c = (Some TypeError, c)"
  by (simp_all add: onData_loop.simps(2))

text \<open>
  The claim as stated fails: a chunk with the line \<open>x\<close>, or the line \<open>null\<close>, before a
  \<open>mining.wait_for_work\<close> message makes \<open>onData\<close> throw; nothing is logged and the miner is
  not told to wait, as it is when the message comes alone.
\<close>

theorem onData_parse_error_escapes:
  \<open>onData example_parse example_Buffer_from_object
      (ascii_bytes ''{"method":"mining.wait_for_work"}\<newline>'') example_client
     = (None, miner waitForWork (client_log Info ''wait_for_work received'' example_client))
   \<and> onData example_parse example_Buffer_from_object
       (ascii_bytes ''x\<newline>{"method":"mining.wait_for_work"}\<newline>'') example_client
       = (Some SyntaxError, example_client)
   \<and> onData example_parse example_Buffer_from_object
       (ascii_bytes ''null\<newline>{"method":"mining.wait_for_work"}\<newline>'') example_client
       = (Some TypeError, example_client)\<close>
  by (simp add: onData_def lines_wait lines_bad_wait lines_null_wait onData_loop_wait
        onData_loop_throws example_parse_simps)

text \<open>
  The five cases on the example session, each followed by a message that is
  understood.
\<close>

theorem onData_discards_witness:
  \<open>example_parse (ascii ''{"method":"mining.unknown"}'') =
     Some (JObject [(ascii ''method'', JString (ascii ''mining.unknown''))])
   \<and> onData_loop example_parse example_Buffer_from_object
        [ascii ''{"method":"mining.unknown"}'', ascii ''{"method":"mining.wait_for_work"}'']
        example_client =
      (None, miner waitForWork (client_log Info ''wait_for_work received''
               (client_log Info ''unrecognized method'' example_client)))
   \<and> example_parse (ascii ''{}'') = Some (JObject [])
   \<and> onData_loop example_parse example_Buffer_from_object
        [ascii ''{}'', ascii ''{"method":"mining.wait_for_work"}''] example_client =
      (None, miner waitForWork (client_log Info ''wait_for_work received''
               (client_log Info ''unrecognized message received'' example_client)))
   \<and> example_parse (ascii ''{"id":7,"result":"cd"}'') =
       Some (JObject [(ascii ''id'', JNumber 7), (ascii ''result'', JString (ascii ''cd''))])
   \<and> requestsSent_get (requestsSent example_client) (JNumber 7) = None
   \<and> onData_loop example_parse example_Buffer_from_object
        [ascii ''{"id":7,"result":"cd"}'', ascii ''{"method":"mining.wait_for_work"}'']
        example_client =
      (None, client_log Info ''unrecognized response received'' example_client)
   \<and> example_parse (ascii ''x'') = None
   \<and> onData_loop example_parse example_Buffer_from_object
        [ascii ''x'', ascii ''{"method":"mining.wait_for_work"}''] example_client =
      (Some SyntaxError, example_client)
   \<and> example_parse (ascii ''null'') = Some JNull
   \<and> onData_loop example_parse example_Buffer_from_object
        [ascii ''null'', ascii ''{"method":"mining.wait_for_work"}''] example_client =
      (Some TypeError, example_client)\<close>
  using
    onData_discards [where JSON_parse = example_parse
      and Buffer_from_object = example_Buffer_from_object
      and l = \<open>ascii ''{"method":"mining.unknown"}''\<close>
      and payload = \<open>JObject [(ascii ''method'', JString (ascii ''mining.unknown''))]\<close>
      and m = \<open>JString (ascii ''mining.unknown'')\<close>
      and ls = \<open>[ascii ''{"method":"mining.wait_for_work"}'']\<close> and c = example_client]
    onData_discards [where JSON_parse = example_parse
      and Buffer_from_object = example_Buffer_from_object
      and l = \<open>ascii ''{}''\<close> and payload = \<open>JObject []\<close>
      and ls = \<open>[ascii ''{"method":"mining.wait_for_work"}'']\<close> and c = example_client]
    onData_discards [where JSON_parse = example_parse
      and Buffer_from_object = example_Buffer_from_object
      and l = \<open>ascii ''{"id":7,"result":"cd"}''\<close>
      and payload = \<open>JObject [(ascii ''id'', JNumber 7), (ascii ''result'', JString (ascii ''cd''))]\<close>
      and i = \<open>JNumber 7\<close>
      and ls = \<open>[ascii ''{"method":"mining.wait_for_work"}'']\<close> and c = example_client]
    onData_discards [where JSON_parse = example_parse
      and Buffer_from_object = example_Buffer_from_object
      and l = \<open>ascii ''x''\<close>
      and ls = \<open>[ascii ''{"method":"mining.wait_for_work"}'']\<close> and c = example_client]
    onData_discards [where JSON_parse = example_parse
      and Buffer_from_object = example_Buffer_from_object
      and l = \<open>ascii ''null''\<close>
      and ls = \<open>[ascii ''{"method":"mining.wait_for_work"}'']\<close> and c = example_client]
  by (simp add: example_parse_simps example_props not_nullish_def example_strings_differ
        requestsSent_get_example onData_loop_wait)

text \<open>
  A message with a known method is not among the cases above, and without \<open>params\<close>
  it is not handled either: \<open>mining.set_target\<close> alone is announced in the log and then
  \<open>message.params[0]\<close> throws.
\<close>

lemma set_target_without_params_throws:
  \<open>onData_loop example_parse example_Buffer_from_object
      [ascii ''{"method":"mining.set_target"}'', ascii ''{"method":"mining.wait_for_work"}'']
      example_client
     = (Some TypeError, client_log Info ''set_target received'' example_client)\<close>
  by (simp add: onData_loop.simps(2) example_parse_simps example_props not_nullish_def
        js_elem_def)

end
